theory Spec2Isabelle
  imports Complex_Main
begin

section \<open>JavaScript numbers\<close>

text \<open>
  A JavaScript number is modelled as a real number or one of the three special values.
  Rounding to binary64 and the sign of zero are not modelled: a finite number is the
  exact real it denotes, and a zero divisor counts as +0. Comparison and division
  follow IEEE 754 on the special values (every comparison with NaN is false).
\<close>

datatype jsnum = Fin real | PInf | NInf | NaN

fun js_lt :: "jsnum \<Rightarrow> jsnum \<Rightarrow> bool" where
  "js_lt NaN _ = False"
| "js_lt _ NaN = False"
| "js_lt (Fin a) (Fin b) = (a < b)"
| "js_lt (Fin _) PInf = True"
| "js_lt (Fin _) NInf = False"
| "js_lt PInf _ = False"
| "js_lt NInf NInf = False"
| "js_lt NInf _ = True"

definition js_gt :: "jsnum \<Rightarrow> jsnum \<Rightarrow> bool" where
  "js_gt a b = js_lt b a"

fun js_le :: "jsnum \<Rightarrow> jsnum \<Rightarrow> bool" where
  "js_le NaN _ = False"
| "js_le _ NaN = False"
| "js_le (Fin a) (Fin b) = (a \<le> b)"
| "js_le (Fin _) PInf = True"
| "js_le (Fin _) NInf = False"
| "js_le PInf PInf = True"
| "js_le PInf _ = False"
| "js_le NInf _ = True"

fun js_div :: "jsnum \<Rightarrow> jsnum \<Rightarrow> jsnum" where
  "js_div NaN _ = NaN"
| "js_div _ NaN = NaN"
| "js_div (Fin a) (Fin b) =
     (if b \<noteq> 0 then Fin (a / b)
      else if 0 < a then PInf else if a < 0 then NInf else NaN)"
| "js_div (Fin _) _ = Fin 0"
| "js_div PInf (Fin b) = (if 0 \<le> b then PInf else NInf)"
| "js_div NInf (Fin b) = (if 0 \<le> b then NInf else PInf)"
| "js_div _ _ = NaN"

section \<open>JSON values\<close>

text \<open>
  The values a response of the service can hold. An object is the list of its
  properties, in order, each name once.
\<close>

datatype json =
    JNull
  | JBool bool
  | JNum jsnum
  | JStr string
  | JArr "json list"
  | JObj "(string \<times> json) list"

section \<open>Strings\<close>

text \<open>
  A JavaScript string is a sequence of UTF-16 code units. The strings of the model are
  the sequences of code units below U+0100: the character \<open>c\<close> stands for the code unit
  with the number \<open>of_char c\<close> (ASCII and the Latin-1 supplement). A text with a code unit
  from U+0100 on is outside the model. On this alphabet \<open>toLowerCase\<close> is the case mapping
  of JavaScript: the letters A to Z and the capital letters U+00C0 to U+00DE (but not
  the multiplication sign U+00D7) have a lower-case letter, 32 code units further on.
\<close>

definition lower_char :: "char \<Rightarrow> char" where
  "lower_char c =
     (case map_of (zip (''ABCDEFGHIJKLMNOPQRSTUVWXYZ'' @
                        [CHR 0xC0, CHR 0xC1, CHR 0xC2, CHR 0xC3, CHR 0xC4, CHR 0xC5, CHR 0xC6,
                         CHR 0xC7, CHR 0xC8, CHR 0xC9, CHR 0xCA, CHR 0xCB, CHR 0xCC, CHR 0xCD,
                         CHR 0xCE, CHR 0xCF, CHR 0xD0, CHR 0xD1, CHR 0xD2, CHR 0xD3, CHR 0xD4,
                         CHR 0xD5, CHR 0xD6, CHR 0xD8, CHR 0xD9, CHR 0xDA, CHR 0xDB, CHR 0xDC,
                         CHR 0xDD, CHR 0xDE])
                       (''abcdefghijklmnopqrstuvwxyz'' @
                        [CHR 0xE0, CHR 0xE1, CHR 0xE2, CHR 0xE3, CHR 0xE4, CHR 0xE5, CHR 0xE6,
                         CHR 0xE7, CHR 0xE8, CHR 0xE9, CHR 0xEA, CHR 0xEB, CHR 0xEC, CHR 0xED,
                         CHR 0xEE, CHR 0xEF, CHR 0xF0, CHR 0xF1, CHR 0xF2, CHR 0xF3, CHR 0xF4,
                         CHR 0xF5, CHR 0xF6, CHR 0xF8, CHR 0xF9, CHR 0xFA, CHR 0xFB, CHR 0xFC,
                         CHR 0xFD, CHR 0xFE])) c of
        Some d \<Rightarrow> d
      | None \<Rightarrow> c)"

definition toLowerCase :: "string \<Rightarrow> string" where
  "toLowerCase s = map lower_char s"

section \<open>The thresholds table (config/labThresholds.js)\<close>

text \<open>
  An entry of the table: a unit, the generic bounds, the per-sex bounds (the properties
  \<open>male\<close> and \<open>female\<close> of an entry, here the list \<open>sexes\<close>) and the \<open>severity\<close> object. A
  property that an entry may omit is an option. The \<open>severity\<close> object itself is always
  there: \<open>assessValue\<close> reads its properties without a guard, and every entry of the table
  has one.
\<close>

record range =
  normalLow :: "real option"
  normalHigh :: "real option"

record cutoffs =
  mild :: "real option"
  moderate :: "real option"
  severe :: "real option"

record conf = range +
  unit :: "string option"
  sexes :: "(string \<times> range) list"
  severity :: cutoffs

text \<open>
  The table is an object literal. Its own properties are the entries, a finite map from
  analyte keys to entries; behind them the object inherits the members of
  \<open>Object.prototype\<close>.
\<close>

type_synonym table = "string \<Rightarrow> conf option"

definition hemoglobin_conf :: conf where
  "hemoglobin_conf =
     \<lparr>normalLow = None, normalHigh = None, unit = Some ''g/dL'',
      sexes = [(''male'', \<lparr>normalLow = Some 13.5, normalHigh = Some 17.5\<rparr>),
               (''female'', \<lparr>normalLow = Some 12.0, normalHigh = Some 15.5\<rparr>)],
      severity = \<lparr>mild = Some 0.95, moderate = Some 0.85, severe = Some 0.7\<rparr>\<rparr>"

definition platelet_conf :: conf where
  "platelet_conf =
     \<lparr>normalLow = Some 150, normalHigh = Some 450, unit = Some ''10^9/L'', sexes = [],
      severity = \<lparr>mild = Some 0.9, moderate = Some 0.7, severe = Some 0.5\<rparr>\<rparr>"

definition glucose_fasting_conf :: conf where
  "glucose_fasting_conf =
     \<lparr>normalLow = Some 70, normalHigh = Some 99, unit = Some ''mg/dL'', sexes = [],
      severity = \<lparr>mild = Some 1.1, moderate = Some 1.25, severe = Some 1.5\<rparr>\<rparr>"

definition thresholds :: table where
  "thresholds = map_of
     [(''hemoglobin'', hemoglobin_conf),
      (''platelet'', platelet_conf),
      (''glucose_fasting'', glucose_fasting_conf)]"

text \<open>
  \<open>thresholds[key]\<close> walks the prototype chain: it gives the entry of the key when the
  table has one, and otherwise the member of \<open>Object.prototype\<close> with that name when there
  is one. Such a member is a built-in function (\<open>Method\<close>) or, for the name \<open>__proto__\<close>, the
  prototype object itself (\<open>Proto\<close>). For every other key the lookup gives \<open>undefined\<close>.
\<close>

datatype member = Entry conf | Method | Proto

definition object_prototype_methods :: "string list" where
  "object_prototype_methods =
     [''constructor'', ''__defineGetter__'', ''__defineSetter__'', ''hasOwnProperty'',
      ''__lookupGetter__'', ''__lookupSetter__'', ''isPrototypeOf'', ''propertyIsEnumerable'',
      ''toString'', ''valueOf'', ''toLocaleString'']"

definition lookup :: "table \<Rightarrow> string \<Rightarrow> member option" where
  "lookup th k =
     (case th k of
        Some c \<Rightarrow> Some (Entry c)
      | None \<Rightarrow>
          if k = ''__proto__'' then Some Proto
          else if k \<in> set object_prototype_methods then Some Method
          else None)"

section \<open>The rule engine: assessValue\<close>

datatype status = Normal | Low | High | Unknown

datatype severity = SNormal | Mild | Moderate | Severe | SUnknown

text \<open>
  The patient metadata is an object whose \<open>sex\<close>, when it is there, is a string (the
  function calls \<open>toLowerCase\<close> on it).
\<close>

record patientMeta =
  name :: "string option"
  age :: "jsnum option"
  sex :: "string option"

text \<open>
  The value \<open>assessValue\<close> returns. For a key without thresholds the object has no
  \<open>unit\<close> and no \<open>normalRange\<close>, and carries a \<open>note\<close>.
\<close>

record assessment =
  key :: string
  val :: jsnum
  a_unit :: "string option"
  normalRange :: "(real option \<times> real option) option"
  a_status :: status
  a_severity :: severity
  a_note :: "string option"

text \<open>
  The exceptions of the program: an \<open>Error\<close> it throws itself, a \<open>TypeError\<close> of the
  language, a failed request (with the data of the error response, if there is one).
\<close>

datatype exn = Error string | TypeError string | AxiosError "json option"

text \<open>\<open>a ?? b\<close>\<close>

definition nullish :: "'a option \<Rightarrow> 'a \<Rightarrow> 'a" where
  "nullish a b = (case a of Some x \<Rightarrow> x | None \<Rightarrow> b)"

text \<open>
  Lines 45 to 52 of \<open>assessValue\<close>, for an entry: the bounds after the per-sex override.
  The lookup \<open>conf[sex]\<close> is a lookup among the per-sex bounds: any other property of an
  entry, own or inherited (its unit, the severity object, a member of \<open>Object.prototype\<close>),
  has no \<open>normalLow\<close> or \<open>normalHigh\<close> of its own and leaves the bounds as they are.
\<close>

definition resolveBounds :: "conf \<Rightarrow> patientMeta \<Rightarrow> real option \<times> real option" where
  "resolveBounds c meta =
     (let s = toLowerCase (nullish (sex meta) '''') in
      case map_of (sexes c) s of
        None \<Rightarrow> (normalLow c, normalHigh c)
      | Some r \<Rightarrow>
          ((case normalLow r of Some x \<Rightarrow> Some x | None \<Rightarrow> normalLow c),
           (case normalHigh r of Some x \<Rightarrow> Some x | None \<Rightarrow> normalHigh c)))"

text \<open>A bound read as a number: a missing bound is \<open>undefined\<close>, which divides to NaN.\<close>

definition bound_num :: "real option \<Rightarrow> jsnum" where
  "bound_num b = (case b of Some x \<Rightarrow> Fin x | None \<Rightarrow> NaN)"

text \<open>\<open>value < (normalLow || Number.POSITIVE_INFINITY)\<close>: a bound of 0 is falsy.\<close>

definition lowerIsBad :: "real option \<Rightarrow> real option \<Rightarrow> jsnum \<Rightarrow> bool" where
  "lowerIsBad lo hi v =
     (case (lo, hi) of
        (Some l, Some h) \<Rightarrow> js_lt v (if l = 0 then PInf else Fin l)
      | _ \<Rightarrow> False)"

text \<open>
  What lines 45 to 102 return when \<open>conf\<close> is a member of \<open>Object.prototype\<close>. Such a
  member has no \<open>normalLow\<close>, \<open>normalHigh\<close>, \<open>unit\<close> or \<open>severity\<close>, and whatever \<open>conf[sex]\<close>
  is, it has no \<open>normalLow\<close> or \<open>normalHigh\<close> either. So both bounds stay \<open>undefined\<close>,
  \<open>lowerIsBad\<close> is false, the other branch finds no \<open>normalHigh\<close>, and the value is
  assessed normal, with the unit \<open>''\<close>; \<open>conf.severity\<close> is not read.
\<close>

definition unbounded :: "string \<Rightarrow> jsnum \<Rightarrow> assessment" where
  "unbounded k v =
     \<lparr>key = k, val = v, a_unit = Some [], normalRange = Some (None, None),
      a_status = Normal, a_severity = SNormal, a_note = None\<rparr>"

text \<open>
  \<open>assessValue\<close>, with the table as a parameter. The function returns an assessment or
  raises. It raises in one case: \<open>conf\<close> is a built-in function and \<open>sex\<close>, in lower case,
  is \<open>caller\<close> or \<open>arguments\<close>. These two are accessor properties of
  \<open>Function.prototype\<close> whose getter throws a TypeError for a built-in function, and
  line 49 reads \<open>conf[sex]\<close>.
\<close>

definition assessValue :: "table \<Rightarrow> string \<Rightarrow> jsnum \<Rightarrow> patientMeta \<Rightarrow> exn + assessment" where
  "assessValue th k v meta =
     (case lookup th k of
        None \<Rightarrow>
          Inr \<lparr>key = k, val = v, a_unit = None, normalRange = None, a_status = Unknown,
               a_severity = SUnknown, a_note = Some ''No threshold configured''\<rparr>
      | Some Proto \<Rightarrow> Inr (unbounded k v)
      | Some Method \<Rightarrow>
          if toLowerCase (nullish (sex meta) '''') \<in> {''caller'', ''arguments''}
          then Inl (TypeError ''caller and arguments may not be accessed on this function'')
          else Inr (unbounded k v)
      | Some (Entry c) \<Rightarrow>
          (let (lo, hi) = resolveBounds c meta;
               (sev, st) =
                 (if lowerIsBad lo hi v then
                    (let pct = js_div v (bound_num lo) in
                     if js_lt pct (Fin (nullish (severe (severity c)) 0.7)) then (Severe, Low)
                     else if js_lt pct (Fin (nullish (moderate (severity c)) 0.85)) then (Moderate, Low)
                     else if js_lt pct (Fin 1) then (Mild, Low)
                     else (SNormal, Normal))
                  else
                    (case hi of
                       None \<Rightarrow> (SNormal, Normal)
                     | Some h \<Rightarrow>
                         if js_gt v (Fin h) then
                           (let ratio = js_div v (Fin h) in
                            if js_gt ratio (Fin (nullish (severe (severity c)) 1.5)) then (Severe, High)
                            else if js_gt ratio (Fin (nullish (moderate (severity c)) 1.2)) then (Moderate, High)
                            else (Mild, High))
                         else (SNormal, Normal)))
           in Inr \<lparr>key = k, val = v, a_unit = Some (nullish (unit c) ''''),
                   normalRange = Some (lo, hi), a_status = st, a_severity = sev,
                   a_note = None\<rparr>))"

text \<open>
  The order of badness on severities, normal < mild < moderate < severe. The severity
  \<open>unknown\<close> is not on the scale.
\<close>

fun badness :: "severity \<Rightarrow> nat option" where
  "badness SNormal = Some 0"
| "badness Mild = Some 1"
| "badness Moderate = Some 2"
| "badness Severe = Some 3"
| "badness SUnknown = None"

definition at_least_as_bad :: "severity \<Rightarrow> severity \<Rightarrow> bool" where
  "at_least_as_bad a b =
     (case (badness a, badness b) of (Some m, Some n) \<Rightarrow> n \<le> m | _ \<Rightarrow> False)"

definition male :: patientMeta where
  "male = \<lparr>name = None, age = None, sex = Some ''Male''\<rparr>"

definition no_meta :: patientMeta where
  "no_meta = \<lparr>name = None, age = None, sex = None\<rparr>"

text \<open>
  A sample entry with one bound only: an upper bound, and a \<open>severity\<close> object without
  cutoffs.
\<close>

definition ldl_conf :: conf where
  "ldl_conf =
     \<lparr>normalLow = None, normalHigh = Some 100, unit = Some ''mg/dL'', sexes = [],
      severity = \<lparr>mild = None, moderate = None, severe = None\<rparr>\<rparr>"

section \<open>More string operations\<close>

text \<open>\<open>s.startsWith(p)\<close> and \<open>s.includes(m)\<close>.\<close>

fun startsWith :: "string \<Rightarrow> string \<Rightarrow> bool" where
  "startsWith s [] = True"
| "startsWith [] (p # ps) = False"
| "startsWith (c # cs) (p # ps) = (c = p \<and> startsWith cs ps)"

fun includes_str :: "string \<Rightarrow> string \<Rightarrow> bool" where
  "includes_str [] m = (m = [])"
| "includes_str (c # cs) m = (startsWith (c # cs) m \<or> includes_str cs m)"

text \<open>
  White space, as \<open>\s\<close> in a regular expression, \<open>trim\<close> and \<open>parseFloat\<close> know it: on
  the alphabet of the model these are the tab, the line feed, the vertical tab, the form
  feed, the carriage return, the space and the no-break space U+00A0. (The other white
  space of JavaScript, such as U+2028 or U+FEFF, lies outside the alphabet.)
\<close>

definition is_space :: "char \<Rightarrow> bool" where
  "is_space c =
     (c \<in> set [CHR 0x09, CHR 0x0A, CHR 0x0B, CHR 0x0C, CHR 0x0D, CHR '' '', CHR 0xA0])"

definition trim :: "string \<Rightarrow> string" where
  "trim s = rev (dropWhile is_space (rev (dropWhile is_space s)))"

text \<open>
  \<open>toUpperCase\<close>: the letters a to z and the small letters U+00E0 to U+00FE (but not the
  division sign U+00F7) have a capital letter, 32 code units before them, and the sharp s
  U+00DF becomes \<open>SS\<close>. The capital letters of the micro sign U+00B5 and of U+00FF lie
  outside the alphabet; the model leaves these two characters as they are.
\<close>

definition upper_char :: "char \<Rightarrow> char" where
  "upper_char c =
     (case map_of (zip (''abcdefghijklmnopqrstuvwxyz'' @
                        [CHR 0xE0, CHR 0xE1, CHR 0xE2, CHR 0xE3, CHR 0xE4, CHR 0xE5, CHR 0xE6,
                         CHR 0xE7, CHR 0xE8, CHR 0xE9, CHR 0xEA, CHR 0xEB, CHR 0xEC, CHR 0xED,
                         CHR 0xEE, CHR 0xEF, CHR 0xF0, CHR 0xF1, CHR 0xF2, CHR 0xF3, CHR 0xF4,
                         CHR 0xF5, CHR 0xF6, CHR 0xF8, CHR 0xF9, CHR 0xFA, CHR 0xFB, CHR 0xFC,
                         CHR 0xFD, CHR 0xFE])
                       (''ABCDEFGHIJKLMNOPQRSTUVWXYZ'' @
                        [CHR 0xC0, CHR 0xC1, CHR 0xC2, CHR 0xC3, CHR 0xC4, CHR 0xC5, CHR 0xC6,
                         CHR 0xC7, CHR 0xC8, CHR 0xC9, CHR 0xCA, CHR 0xCB, CHR 0xCC, CHR 0xCD,
                         CHR 0xCE, CHR 0xCF, CHR 0xD0, CHR 0xD1, CHR 0xD2, CHR 0xD3, CHR 0xD4,
                         CHR 0xD5, CHR 0xD6, CHR 0xD8, CHR 0xD9, CHR 0xDA, CHR 0xDB, CHR 0xDC,
                         CHR 0xDD, CHR 0xDE])) c of
        Some d \<Rightarrow> d
      | None \<Rightarrow> c)"

definition toUpperCase :: "string \<Rightarrow> string" where
  "toUpperCase s = concat (map (\<lambda>c. if c = CHR 0xDF then ''SS'' else [upper_char c]) s)"

fun join :: "string \<Rightarrow> string list \<Rightarrow> string" where
  "join sep [] = []"
| "join sep [x] = x"
| "join sep (x # y # ys) = x @ sep @ join sep (y # ys)"

definition truthy_str :: "string option \<Rightarrow> bool" where
  "truthy_str s = (case s of Some (c # cs) \<Rightarrow> True | _ \<Rightarrow> False)"

section \<open>Merging the lab result into the report sections (reportAnalyzer.js)\<close>

text \<open>
  \<open>mergeLabInsightsIntoSections\<close> reads the explanations and the action items of
  \<open>analysis.labAnalysis.result\<close>. The result is typed as the normalized result the lab
  analysis produces locally: explanations with string fields, action items that are
  strings. A field that is absent is \<open>None\<close>; \<open>labResult\<close> is \<open>None\<close> when the analysis has
  no \<open>labAnalysis\<close> or no \<open>result\<close>, \<open>explanations\<close> and \<open>action_items\<close> are \<open>None\<close> when they are
  not arrays. The function updates the analysis in place; the model returns the updated
  analysis. The three characters of the section headers that lie outside the
  alphabet of the model (a bullet and two pictographs) are written as their UTF-8 bytes;
  none of these bytes is white space or a capital letter.
\<close>

record lab_explanation =
  exp_key :: "string option"
  exp_severity :: "string option"
  exp_explanation :: "string option"
  exp_raw_assistant :: "string option"

record lab_result =
  explanations :: "lab_explanation list option"
  action_items :: "string list option"

record analysis =
  summary :: "string option"
  findings :: "string option"
  recommendations :: "string option"
  labResult :: "lab_result option"

definition bullet :: string where
  "bullet = [CHR 0xE2, CHR 0x80, CHR 0xA2]"

definition microscope :: string where
  "microscope = [CHR 0xF0, CHR 0x9F, CHR 0x94, CHR 0xAC]"

definition robot :: string where
  "robot = [CHR 0xF0, CHR 0x9F, CHR 0xA4, CHR 0x96]"

definition nl :: string where
  "nl = [CHR 0x0A]"

definition explanationBullet :: "lab_explanation \<Rightarrow> string" where
  "explanationBullet e =
     (let label = (if truthy_str (exp_key e)
                   then toUpperCase (map (\<lambda>c. if c = CHR ''_'' then CHR '' '' else c) (nullish (exp_key e) []))
                   else ''LAB RESULT'');
          sev = (if truthy_str (exp_severity e) then '' ('' @ nullish (exp_severity e) [] @ '')'' else []);
          detail = (if truthy_str (exp_explanation e) then nullish (exp_explanation e) []
                    else if truthy_str (exp_raw_assistant e) then nullish (exp_raw_assistant e) []
                    else [])
      in trim (bullet @ '' '' @ label @ sev @ '': '' @ detail))"

definition explanationBullets :: "lab_explanation list \<Rightarrow> string" where
  "explanationBullets es = join nl (map explanationBullet (take 3 es))"

definition mergeLabInsightsIntoSections :: "analysis \<Rightarrow> analysis" where
  "mergeLabInsightsIntoSections a =
     (case labResult a of
        None \<Rightarrow> a
      | Some r \<Rightarrow>
          (let es = nullish (explanations r) [];
               actionItems = nullish (action_items r) [];
               bullets = explanationBullets es;
               a1 = (if es \<noteq> [] then
                       (let s1 = (if truthy_str (summary a) \<and>
                                     \<not> includes_str (nullish (summary a) []) ''Watson Lab Highlights''
                                  then Some (nullish (summary a) [] @ nl @ nl @ microscope @
                                             '' **Watson AI Lab Analysis**'' @ nl @ bullets)
                                  else summary a);
                            f1 = (if \<not> truthy_str (findings a) \<or>
                                     includes_str (toLowerCase (nullish (findings a) []))
                                       ''no text could be extracted''
                                  then Some (trim ((if truthy_str (findings a)
                                                    then nullish (findings a) [] @ nl @ nl else []) @
                                                   ''**AI-Powered Lab Analysis:**'' @ nl @ bullets))
                                  else if \<not> includes_str (nullish (findings a) []) ''Watson Lab''
                                  then Some (nullish (findings a) [] @ nl @ nl @
                                             ''**Watson AI Insights:**'' @ nl @ bullets)
                                  else findings a)
                        in a\<lparr>summary := s1, findings := f1\<rparr>)
                     else a)
           in if actionItems \<noteq> [] \<and> truthy_str (recommendations a1) \<and>
                 \<not> includes_str (nullish (recommendations a1) []) ''AI Lab Follow-ups''
              then a1\<lparr>recommendations :=
                        Some (nullish (recommendations a1) [] @ nl @ nl @ robot @
                              '' **AI-Recommended Actions**'' @ nl @
                              join nl (map (\<lambda>item. bullet @ '' '' @ item) actionItems))\<rparr>
              else a1))"

text \<open>A base analysis with one explanation and one action item attached.\<close>

definition base0 :: analysis where
  "base0 = \<lparr>summary = Some ''S'', findings = Some ''F'', recommendations = Some ''R'',
     labResult = Some \<lparr>explanations = Some [\<lparr>exp_key = Some ''hemoglobin'', exp_severity = Some ''mild'',
        exp_explanation = Some ''low'', exp_raw_assistant = None\<rparr>], action_items = Some [''rest'']\<rparr>\<rparr>"

section \<open>Regular expressions\<close>

text \<open>
  The regular expressions of the program, as a datatype of the constructs they use, and
  a backtracking matcher. \<open>Rep cls lo hi\<close> is a greedy repetition of a character class
  (\<open>hi = None\<close> for an unbounded one), \<open>LazyAny\<close> is \<open>[\s\S]*?\<close>, \<open>Opt\<close> is a greedy \<open>?\<close>,
  \<open>Group\<close> is the capture group 1.
\<close>

datatype regex =
    Lit string
  | Alt regex regex
  | Cat regex regex
  | Opt regex
  | Rep "char \<Rightarrow> bool" nat "nat option"
  | LazyAny
  | Group regex

text \<open>
  The inputs that remain after a greedy repetition, the longest repetition first, as
  backtracking tries them.
\<close>

fun greedy :: "(char \<Rightarrow> bool) \<Rightarrow> nat \<Rightarrow> nat option \<Rightarrow> string \<Rightarrow> string list" where
  "greedy cls lo hi [] = (if lo = 0 then [[]] else [])"
| "greedy cls lo hi (c # cs) =
     (if cls c \<and> hi \<noteq> Some 0 then greedy cls (lo - 1) (map_option (\<lambda>h. h - 1) hi) cs else []) @
     (if lo = 0 then [c # cs] else [])"

text \<open>The inputs that remain after a lazy \<open>[\s\S]*?\<close>, the shortest repetition first.\<close>

fun tails :: "string \<Rightarrow> string list" where
  "tails [] = [[]]"
| "tails (c # cs) = (c # cs) # tails cs"

text \<open>
  With the flag \<open>i\<close> two code units match when they have the same canonical form. On the
  alphabet of the model these are the code units with the same lower-case form.
\<close>

definition fold_case :: "bool \<Rightarrow> string \<Rightarrow> string" where
  "fold_case ci s = (if ci then toLowerCase s else s)"

text \<open>
  \<open>rmatch ci r s cap\<close> lists every way \<open>r\<close> matches a prefix of \<open>s\<close>, in the order in which
  a backtracking matcher finds them: each is the rest of the input with the capture.
  \<open>ci\<close> is the flag \<open>i\<close>.
\<close>

fun rmatch :: "bool \<Rightarrow> regex \<Rightarrow> string \<Rightarrow> string option \<Rightarrow> (string \<times> string option) list" where
  "rmatch ci (Lit l) s cap =
     (if length l \<le> length s \<and> fold_case ci (take (length l) s) = fold_case ci l
      then [(drop (length l) s, cap)] else [])"
| "rmatch ci (Alt a b) s cap = rmatch ci a s cap @ rmatch ci b s cap"
| "rmatch ci (Cat a b) s cap = concat (map (\<lambda>(r, c). rmatch ci b r c) (rmatch ci a s cap))"
| "rmatch ci (Opt a) s cap = rmatch ci a s cap @ [(s, cap)]"
| "rmatch ci (Rep cls lo hi) s cap = map (\<lambda>r. (r, cap)) (greedy cls lo hi s)"
| "rmatch ci LazyAny s cap = map (\<lambda>r. (r, cap)) (tails s)"
| "rmatch ci (Group a) s cap =
     map (\<lambda>(r, c). (r, Some (take (length s - length r) s))) (rmatch ci a s cap)"

text \<open>
  \<open>s.match(r)\<close> without the flag \<open>g\<close>: the leftmost match, and at that position the first
  one the matcher finds. The result holds the text before the match, \<open>m[0]\<close>, \<open>m[1]\<close> and
  the text after the match.
\<close>

record rx_match =
  m_pre :: string
  matched :: string
  group1 :: "string option"
  m_post :: string

fun rx_exec :: "bool \<Rightarrow> regex \<Rightarrow> string \<Rightarrow> rx_match option" where
  "rx_exec ci r [] =
     (case rmatch ci r [] None of
        [] \<Rightarrow> None
      | (rest, c) # _ \<Rightarrow> Some \<lparr>m_pre = [], matched = [], group1 = c, m_post = []\<rparr>)"
| "rx_exec ci r (x # xs) =
     (case rmatch ci r (x # xs) None of
        [] \<Rightarrow> map_option (\<lambda>m. m\<lparr>m_pre := x # m_pre m\<rparr>) (rx_exec ci r xs)
      | (rest, c) # _ \<Rightarrow>
          Some \<lparr>m_pre = [], matched = take (length (x # xs) - length rest) (x # xs),
                group1 = c, m_post = rest\<rparr>)"

text \<open>
  \<open>s.replace(r, f)\<close> with the flag \<open>g\<close>: every match, from left to right, is replaced by
  \<open>f\<close> of the match; after an empty match the search moves on by one character. The
  function terminates because what a match leaves is a proper suffix of the input.
\<close>

lemma greedy_suffix: "x \<in> set (greedy cls lo hi s) \<Longrightarrow> \<exists>p. s = p @ x"
proof (induction s arbitrary: lo hi)
  case Nil
  then show ?case by (simp split: if_splits)
next
  case (Cons c cs)
  then show ?case
    by (fastforce split: if_splits)
qed

lemma tails_suffix: "x \<in> set (tails s) \<Longrightarrow> \<exists>p. s = p @ x"
  by (induction s) fastforce+

lemma rmatch_suffix: "(rest, c) \<in> set (rmatch ci r s cap) \<Longrightarrow> \<exists>p. s = p @ rest"
proof (induction r arbitrary: s cap rest c)
  case (Lit l)
  then show ?case
    by (auto split: if_splits intro: exI [of _ "take (length l) s"])
next
  case (Cat a b)
  then obtain r1 c1 where 1: "(r1, c1) \<in> set (rmatch ci a s cap)"
    and 2: "(rest, c) \<in> set (rmatch ci b r1 c1)"
    by auto
  from Cat.IH(1) [OF 1] Cat.IH(2) [OF 2] show ?case by auto
next
  case (Rep cls lo hi)
  then show ?case by (auto dest: greedy_suffix)
next
  case LazyAny
  then show ?case by (auto dest: tails_suffix)
qed auto

lemma rx_exec_decomp:
  "rx_exec ci r s = Some m \<Longrightarrow> s = m_pre m @ matched m @ m_post m"
proof (induction s arbitrary: m)
  case Nil
  then show ?case
    by (auto split: list.splits)
next
  case (Cons x xs)
  show ?case
  proof (cases "rmatch ci r (x # xs) None")
    case Nil
    with Cons.prems obtain m' where "rx_exec ci r xs = Some m'" "m = m'\<lparr>m_pre := x # m_pre m'\<rparr>"
      by auto
    with Cons.IH [of m'] show ?thesis by simp
  next
    case (Cons p ps)
    obtain rest c where p: "p = (rest, c)" by (cases p)
    with Cons have "(rest, c) \<in> set (rmatch ci r (x # xs) None)" by simp
    then obtain q where q: "x # xs = q @ rest" by (auto dest: rmatch_suffix)
    from Cons p Cons.prems
    have m: "m = \<lparr>m_pre = [], matched = take (length (x # xs) - length rest) (x # xs),
      group1 = c, m_post = rest\<rparr>"
      by simp
    have "take (length (x # xs) - length rest) (x # xs) = q"
      unfolding q by simp
    with m q show ?thesis by simp
  qed
qed

function replaceAll :: "bool \<Rightarrow> regex \<Rightarrow> (rx_match \<Rightarrow> string) \<Rightarrow> string \<Rightarrow> string" where
  "replaceAll ci r f s =
     (case rx_exec ci r s of
        None \<Rightarrow> s
      | Some m \<Rightarrow>
          m_pre m @ f m @
          (if matched m = [] then
             (case m_post m of [] \<Rightarrow> [] | c # cs \<Rightarrow> c # replaceAll ci r f cs)
           else replaceAll ci r f (m_post m)))"
  by pat_completeness auto
termination
proof (relation "measure (\<lambda>(ci, r, f, s). length s)")
  show "wf (measure (\<lambda>(ci, r, f, s). length s))" by simp
next
  fix ci r f s m c cs
  assume "rx_exec ci r s = Some m" "matched m = []" "m_post m = c # cs"
  then show "((ci, r, f, cs), (ci, r, f, s)) \<in> measure (\<lambda>(ci, r, f, s). length s)"
    by (auto dest!: rx_exec_decomp)
next
  fix ci r f s m
  assume "rx_exec ci r s = Some m" "matched m \<noteq> []"
  then show "((ci, r, f, m_post m), (ci, r, f, s)) \<in> measure (\<lambda>(ci, r, f, s). length s)"
    by (auto dest!: rx_exec_decomp)
qed

text \<open>The equation of \<open>replaceAll\<close> is applied by hand: as a rewrite rule it would loop.\<close>

declare replaceAll.simps [simp del]

section \<open>Extraction of lab values: parseLabValues\<close>

definition is_digit :: "char \<Rightarrow> bool" where
  "is_digit c = (c \<in> set ''0123456789'')"

text \<open>\<open>/(?:hemoglobin|hgb|hb)[^0-9]{0,20}(\d+(?:\.\d+)?)/i\<close>\<close>

definition hemoglobin_rx :: regex where
  "hemoglobin_rx =
     Cat (Alt (Lit ''hemoglobin'') (Alt (Lit ''hgb'') (Lit ''hb'')))
       (Cat (Rep (\<lambda>c. \<not> is_digit c) 0 (Some 20))
         (Group (Cat (Rep is_digit 1 None) (Opt (Cat (Lit ''.'') (Rep is_digit 1 None))))))"

text \<open>\<open>/(?:platelet(?:s)?|plt)[^0-9]{0,20}([0-9,]+(?:\.\d+)?)/i\<close>\<close>

definition platelet_rx :: regex where
  "platelet_rx =
     Cat (Alt (Cat (Lit ''platelet'') (Opt (Lit ''s''))) (Lit ''plt''))
       (Cat (Rep (\<lambda>c. \<not> is_digit c) 0 (Some 20))
         (Group (Cat (Rep (\<lambda>c. is_digit c \<or> c = CHR '','') 1 None)
                  (Opt (Cat (Lit ''.'') (Rep is_digit 1 None))))))"

text \<open>\<open>/(?:fasting glucose|glucose|fbs)[^0-9]{0,20}(\d+(?:\.\d+)?)/i\<close>\<close>

definition glucose_rx :: regex where
  "glucose_rx =
     Cat (Alt (Lit ''fasting glucose'') (Alt (Lit ''glucose'') (Lit ''fbs'')))
       (Cat (Rep (\<lambda>c. \<not> is_digit c) 0 (Some 20))
         (Group (Cat (Rep is_digit 1 None) (Opt (Cat (Lit ''.'') (Rep is_digit 1 None))))))"

record pattern =
  p_key :: string
  names :: "string list"
  regex :: regex

definition patterns :: "pattern list" where
  "patterns =
     [\<lparr>p_key = ''hemoglobin'', names = [''hemoglobin'', ''hb'', ''h b'', ''hb.''],
       regex = hemoglobin_rx\<rparr>,
      \<lparr>p_key = ''platelet'', names = [''platelet'', ''platelets'', ''plt''],
       regex = platelet_rx\<rparr>,
      \<lparr>p_key = ''glucose_fasting'',
       names = [''glucose'', ''fasting glucose'', ''fbs'', ''blood sugar fasting''],
       regex = glucose_rx\<rparr>]"

definition normalizeText :: "string \<Rightarrow> string" where
  "normalizeText s =
     toLowerCase
       (map (\<lambda>c. if c = CHR 0x0D \<or> c = CHR 0x0A \<or> c = CHR 0x09 then CHR '' '' else c) s)"

text \<open>
  \<open>parseFloat\<close>: leading white space, a sign, then \<open>Infinity\<close> or the longest prefix that
  is a decimal literal (digits, a fraction, an exponent). The value is the exact decimal
  value.
\<close>

definition digit_val :: "char \<Rightarrow> nat" where
  "digit_val c = (case map_of (zip ''0123456789'' [0, 1, 2, 3, 4, 5, 6, 7, 8, 9]) c of Some d \<Rightarrow> d | None \<Rightarrow> 0)"

definition decimal :: "string \<Rightarrow> nat" where
  "decimal ds = foldl (\<lambda>a c. 10 * a + digit_val c) 0 ds"

definition read_sign :: "string \<Rightarrow> real \<times> string" where
  "read_sign s =
     (case s of
        c # r \<Rightarrow> if c = CHR ''+'' then (1, r) else if c = CHR ''-'' then (-1, r) else (1, s)
      | [] \<Rightarrow> (1, s))"

definition read_exponent :: "string \<Rightarrow> real" where
  "read_exponent s =
     (case s of
        c # r \<Rightarrow>
          if c = CHR ''e'' \<or> c = CHR ''E'' then
            (let (sg, r') = read_sign r; ds = takeWhile is_digit r' in
             if ds = [] then 1
             else if sg = 1 then 10 ^ decimal ds else 1 / 10 ^ decimal ds)
          else 1
      | [] \<Rightarrow> 1)"

definition parseFloat :: "string \<Rightarrow> jsnum" where
  "parseFloat s =
     (let (sg, s1) = read_sign (dropWhile is_space s) in
      if startsWith s1 ''Infinity'' then (if sg = 1 then PInf else NInf)
      else
        (let ip = takeWhile is_digit s1;
             r1 = dropWhile is_digit s1;
             fp = (if startsWith r1 ''.'' then takeWhile is_digit (tl r1) else []);
             r2 = (if startsWith r1 ''.'' then dropWhile is_digit (tl r1) else r1)
         in if ip = [] \<and> fp = [] then NaN
            else Fin (sg * (real (decimal ip) + real (decimal fp) / 10 ^ length fp) *
                      read_exponent r2)))"

text \<open>
  A JavaScript object with string keys, as the list of its properties in insertion order.
  \<open>obj_set\<close> is the assignment \<open>o[k] = v\<close>.
\<close>

fun obj_set :: "(string \<times> 'a) list \<Rightarrow> string \<Rightarrow> 'a \<Rightarrow> (string \<times> 'a) list" where
  "obj_set [] k v = [(k, v)]"
| "obj_set ((k', v') # kvs) k v =
     (if k' = k then (k, v) # kvs else (k', v') # obj_set kvs k v)"

text \<open>
  The body of the loop of \<open>parseLabValues\<close>. \<open>String(m[1])\<close> of a group that did not take
  part in the match is the text \<open>undefined\<close>.
\<close>

definition parse_step ::
  "string \<Rightarrow> (string \<times> jsnum) list \<Rightarrow> pattern \<Rightarrow> (string \<times> jsnum) list" where
  "parse_step ntext found p =
     (case rx_exec True (regex p) ntext of
        None \<Rightarrow> found
      | Some m \<Rightarrow>
          (let raw = filter (\<lambda>c. c \<noteq> CHR '','')
                       (case group1 m of Some g \<Rightarrow> g | None \<Rightarrow> ''undefined'')
           in obj_set found (p_key p) (parseFloat raw)))"

definition parseLabValues :: "string \<Rightarrow> (string \<times> jsnum) list" where
  "parseLabValues text = foldl (parse_step (normalizeText text)) [] patterns"

text \<open>The keys one pattern contributes to the result: its own key when it matches.\<close>

definition found_keys :: "string \<Rightarrow> pattern \<Rightarrow> string list" where
  "found_keys ntext p = (if rx_exec True (regex p) ntext = None then [] else [p_key p])"

section \<open>The JavaScript runtime\<close>

fun truthy :: "json \<Rightarrow> bool" where
  "truthy JNull = False"
| "truthy (JBool b) = b"
| "truthy (JNum (Fin r)) = (r \<noteq> 0)"
| "truthy (JNum NaN) = False"
| "truthy (JNum _) = True"
| "truthy (JStr s) = (s \<noteq> [])"
| "truthy (JArr _) = True"
| "truthy (JObj _) = True"

text \<open>A value that may be \<open>undefined\<close> is an option; \<open>undefined\<close> is falsy.\<close>

definition truthy_opt :: "json option \<Rightarrow> bool" where
  "truthy_opt v = (case v of None \<Rightarrow> False | Some j \<Rightarrow> truthy j)"

text \<open>
  \<open>v.name\<close> for a value \<open>v\<close> that is not \<open>null\<close>, and for the names the program reads
  (\<open>choices\<close>, \<open>message\<close>, \<open>content\<close>, \<open>predictions\<close>, \<open>result\<close>, \<open>output\<close>, \<open>generations\<close>,
  \<open>access_token\<close>, \<open>expires_in\<close>): only an object has such a property. \<open>v[0]\<close> is the
  first element of an array, the first character of a string, the property \<open>0\<close> of an
  object.
\<close>

fun get_prop :: "json \<Rightarrow> string \<Rightarrow> json option" where
  "get_prop (JObj fs) k = map_of fs k"
| "get_prop _ k = None"

fun index0 :: "json \<Rightarrow> json option" where
  "index0 (JArr (x # _)) = Some x"
| "index0 (JStr (c # _)) = Some (JStr [c])"
| "index0 (JObj fs) = map_of fs ''0''"
| "index0 _ = None"

text \<open>
  The built-in operations whose results the program only passes on are parameters of
  the model: the conversion of a value to a string (in a template literal), the
  conversion to a number, \<open>JSON.stringify\<close> and \<open>JSON.parse\<close> (\<open>None\<close> when it throws).
\<close>

record runtime =
  ToString :: "json \<Rightarrow> string"
  ToNumber :: "json \<Rightarrow> jsnum"
  JSON_stringify :: "json \<Rightarrow> string"
  JSON_parse :: "string \<Rightarrow> json option"

fun js_add :: "jsnum \<Rightarrow> jsnum \<Rightarrow> jsnum" where
  "js_add NaN _ = NaN"
| "js_add _ NaN = NaN"
| "js_add (Fin a) (Fin b) = Fin (a + b)"
| "js_add (Fin _) b = b"
| "js_add a (Fin _) = a"
| "js_add PInf PInf = PInf"
| "js_add NInf NInf = NInf"
| "js_add _ _ = NaN"

fun js_neg :: "jsnum \<Rightarrow> jsnum" where
  "js_neg (Fin a) = Fin (- a)"
| "js_neg PInf = NInf"
| "js_neg NInf = PInf"
| "js_neg NaN = NaN"

definition js_sub :: "jsnum \<Rightarrow> jsnum \<Rightarrow> jsnum" where
  "js_sub a b = js_add a (js_neg b)"

text \<open>Multiplication by a positive finite constant.\<close>

fun js_scale :: "jsnum \<Rightarrow> real \<Rightarrow> jsnum" where
  "js_scale (Fin a) k = Fin (a * k)"
| "js_scale a k = a"

section \<open>The environment and the network\<close>

text \<open>The variables of \<open>process.env\<close> the module reads; an unset variable is \<open>None\<close>.\<close>

record env =
  WATSON_PREDICTION_URL :: "string option"
  WATSON_DEPLOYMENT_ID :: "string option"
  WATSON_URL :: "string option"
  WATSON_APIKEY :: "string option"
  WATSON_REQUEST_STYLE :: "string option"
  WATSON_AUTH_FLOW :: "string option"
  WATSON_IAM_URL :: "string option"

datatype payload = Json json | Form "(string \<times> string) list"

datatype credentials = NoAuth | Basic string string | Authorization string

record request =
  url :: string
  body :: payload
  auth :: credentials

text \<open>
  What the network does with a request: the request fails (with the data of the error
  response, if there is one) or it returns the data of the response: the value of the
  body when the body is JSON, and the body as a string when it is not. Each reply also
  says how much time passes.
\<close>

datatype outcome = Failed "json option" | Data json

record reply =
  elapsed :: nat
  outcome :: outcome

text \<open>
  The state outside the function: the clock, the process-wide token cache, the replies
  the network is going to give (the behaviour of the upstream service, in order; when
  they run out every further request fails) and the requests sent so far.
\<close>

record world =
  clock :: real
  cache_token :: "json option"
  cache_expiresAt :: jsnum
  replies :: "reply list"
  sent :: "request list"

text \<open>\<open>axios.post\<close>: the request is sent, the next reply is consumed.\<close>

definition post :: "world \<Rightarrow> request \<Rightarrow> (exn + json) \<times> world" where
  "post w rq =
     (case replies w of
        [] \<Rightarrow> (Inl (AxiosError None), w\<lparr>sent := sent w @ [rq]\<rparr>)
      | r # rs \<Rightarrow>
          ((case outcome r of Failed d \<Rightarrow> Inl (AxiosError d) | Data j \<Rightarrow> Inr j),
           w\<lparr>clock := clock w + real (elapsed r), replies := rs, sent := sent w @ [rq]\<rparr>))"

section \<open>The prompt: createWatsonPrompt\<close>

fun status_str :: "status \<Rightarrow> string" where
  "status_str Normal = ''normal''"
| "status_str Low = ''low''"
| "status_str High = ''high''"
| "status_str Unknown = ''unknown''"

fun severity_str :: "severity \<Rightarrow> string" where
  "severity_str SNormal = ''normal''"
| "severity_str Mild = ''mild''"
| "severity_str Moderate = ''moderate''"
| "severity_str Severe = ''severe''"
| "severity_str SUnknown = ''unknown''"

text \<open>A number and a bound in a template literal; a missing bound prints \<open>undefined\<close>.\<close>

definition num_str :: "runtime \<Rightarrow> jsnum \<Rightarrow> string" where
  "num_str rt n = ToString rt (JNum n)"

definition bound_str :: "runtime \<Rightarrow> real option \<Rightarrow> string" where
  "bound_str rt b = (case b of None \<Rightarrow> ''undefined'' | Some x \<Rightarrow> num_str rt (Fin x))"

definition meta_json :: "patientMeta \<Rightarrow> json" where
  "meta_json m =
     JObj ((case name m of None \<Rightarrow> [] | Some n \<Rightarrow> [(''name'', JStr n)]) @
           (case age m of None \<Rightarrow> [] | Some a \<Rightarrow> [(''age'', JNum a)]) @
           (case sex m of None \<Rightarrow> [] | Some s \<Rightarrow> [(''sex'', JStr s)]))"

text \<open>
  The line of one lab result. Reading \<open>r.normalRange.low\<close> throws a TypeError when the
  result has no \<open>normalRange\<close>.
\<close>

definition prompt_line :: "runtime \<Rightarrow> assessment \<Rightarrow> exn + string" where
  "prompt_line rt r =
     (case normalRange r of
        None \<Rightarrow> Inl (TypeError ''Cannot read properties of undefined (reading low)'')
      | Some (lo, hi) \<Rightarrow>
          Inr (''- '' @ key r @ '': '' @ num_str rt (val r) @ '' '' @ nullish (a_unit r) [] @
               '' (normal range: '' @ bound_str rt lo @ ''-'' @ bound_str rt hi @ '' '' @
               nullish (a_unit r) [] @ ''). Status: '' @ status_str (a_status r) @
               '', severity: '' @ severity_str (a_severity r)))"

text \<open>A loop whose body may throw: the first exception ends it.\<close>

fun collect :: "(exn + 'a) list \<Rightarrow> exn + 'a list" where
  "collect [] = Inr []"
| "collect (x # xs) =
     (case x of
        Inl e \<Rightarrow> Inl e
      | Inr v \<Rightarrow> (case collect xs of Inl e \<Rightarrow> Inl e | Inr vs \<Rightarrow> Inr (v # vs)))"

text \<open>The double quote.\<close>

definition dq :: string where
  "dq = [CHR 0x22]"

definition createWatsonPrompt :: "runtime \<Rightarrow> assessment list \<Rightarrow> patientMeta \<Rightarrow> exn + string" where
  "createWatsonPrompt rt parsedResults meta =
     (case collect (map (prompt_line rt) parsedResults) of
        Inl e \<Rightarrow> Inl e
      | Inr ls \<Rightarrow>
          Inr (join nl
            ([''You are a helpful, concise medical assistant that explains lab results in plain language for patients.'',
              ''Do NOT provide definitive diagnoses. Always recommend seeing a doctor for serious or severe findings.'',
              [],
              ''Patient metadata:'',
              JSON_stringify rt (meta_json meta),
              [],
              ''Lab results:''] @ ls @
             [[],
              ''Task:'',
              ''1) For each lab item provide a 1-2 sentence plain-language explanation of what the result means for the patient.'',
              ''2) If severity is moderate or severe, clearly say '' @ dq @ ''URGENT: see a doctor'' @ dq @
                '' or similar and list 2 immediate actions.'',
              ''3) Provide 3 suggested questions the patient may ask their doctor about these results.'',
              [],
              ''Format the output as JSON with keys: '' @ dq @ ''explanations'' @ dq @
                '' (array of {key, explanation, severity}), '' @ dq @ ''action_items'' @ dq @
                '' (array), '' @ dq @ ''questions'' @ dq @ '' (array).'',
              [],
              ''Be brief and use non-technical language suitable for patients.'',
              []])))"

section \<open>The call of the inference service: getIamToken and callWatsonx\<close>

text \<open>\<open>process.env.X\<close> as a condition: an unset or empty variable is falsy.\<close>

definition env_or :: "string option \<Rightarrow> string \<Rightarrow> string" where
  "env_or v d = (if truthy_str v then nullish v [] else d)"

text \<open>
  The second half of \<open>getIamToken\<close>: the exchange of the API key for a token, which fills
  the cache.
\<close>

definition fetchIamToken :: "runtime \<Rightarrow> env \<Rightarrow> world \<Rightarrow> (exn + json) \<times> world" where
  "fetchIamToken rt e w =
     (let iamUrl = env_or (WATSON_IAM_URL e) ''https://iam.cloud.ibm.com/identity/token'' in
      if \<not> truthy_str (WATSON_APIKEY e)
      then (Inl (Error ''WATSON_APIKEY is required for IAM auth''), w)
      else
        (case post w \<lparr>url = iamUrl,
                       body = Form [(''grant_type'', ''urn:ibm:params:oauth:grant-type:apikey''),
                                    (''apikey'', nullish (WATSON_APIKEY e) [])],
                       auth = NoAuth\<rparr> of
           (Inl err, w1) \<Rightarrow> (Inl err, w1)
         | (Inr data, w1) \<Rightarrow>
             (case (if truthy data then get_prop data ''access_token'' else None) of
                None \<Rightarrow> (Inl (Error ''Failed to obtain IAM token''), w1)
              | Some tok \<Rightarrow>
                  if \<not> truthy tok then (Inl (Error ''Failed to obtain IAM token''), w1)
                  else
                    (Inr tok,
                     w1\<lparr>cache_token := Some tok,
                        cache_expiresAt :=
                          js_add (Fin (clock w1))
                            (case get_prop data ''expires_in'' of
                               None \<Rightarrow> Fin (3600 * 1000)
                             | Some x \<Rightarrow>
                                 if truthy x then js_scale (ToNumber rt x) 1000
                                 else Fin (3600 * 1000))\<rparr>))))"

definition getIamToken :: "runtime \<Rightarrow> env \<Rightarrow> world \<Rightarrow> (exn + json) \<times> world" where
  "getIamToken rt e w =
     (case cache_token w of
        None \<Rightarrow> fetchIamToken rt e w
      | Some tok \<Rightarrow>
          if truthy tok \<and> js_gt (js_sub (cache_expiresAt w) (Fin 60000)) (Fin (clock w))
          then (Inr tok, w)
          else fetchIamToken rt e w)"

definition systemInstruction :: string where
  "systemInstruction =
     ''You are a helpful, concise medical assistant that explains lab results in plain language for patients.''"

definition callWatsonxChatStyle ::
  "string \<Rightarrow> string \<Rightarrow> credentials \<Rightarrow> world \<Rightarrow> (exn + json) \<times> world" where
  "callWatsonxChatStyle u prompt a w =
     post w \<lparr>url = u,
             body = Json (JObj [(''messages'',
                      JArr [JObj [(''role'', JStr ''user''), (''content'', JStr prompt)]])]),
             auth = a\<rparr>"

definition callWatsonxChatStyleAlt ::
  "string \<Rightarrow> string \<Rightarrow> credentials \<Rightarrow> world \<Rightarrow> (exn + json) \<times> world" where
  "callWatsonxChatStyleAlt u prompt a w =
     post w \<lparr>url = u,
             body = Json (JObj [(''messages'',
                      JArr [JObj [(''author'', JStr ''system''), (''type'', JStr ''text''),
                                  (''text'', JStr systemInstruction)],
                            JObj [(''author'', JStr ''user''), (''type'', JStr ''text''),
                                  (''text'', JStr prompt)]])]),
             auth = a\<rparr>"

text \<open>\<open>baseUrl.replace(/\/$/, '')\<close>: one slash at the end is removed.\<close>

definition strip_slash :: "string \<Rightarrow> string" where
  "strip_slash s = (if s \<noteq> [] \<and> last s = CHR ''/'' then butlast s else s)"

text \<open>
  The choice of the authentication, lines 180 to 191: the token flow, or the API key as
  basic credentials.
\<close>

definition chooseAuth :: "runtime \<Rightarrow> env \<Rightarrow> world \<Rightarrow> (exn + credentials) \<times> world" where
  "chooseAuth rt e w =
     (if toLowerCase (env_or (WATSON_AUTH_FLOW e) ''apikey'') = ''iam'' then
        (case getIamToken rt e w of
           (Inl err, w1) \<Rightarrow> (Inl err, w1)
         | (Inr tok, w1) \<Rightarrow> (Inr (Authorization (''Bearer '' @ ToString rt tok)), w1))
      else if \<not> truthy_str (WATSON_APIKEY e)
      then (Inl (Error ''WATSON_APIKEY is required for apikey auth''), w)
      else (Inr (Basic ''apikey'' (nullish (WATSON_APIKEY e) [])), w))"

definition callWatsonx :: "runtime \<Rightarrow> env \<Rightarrow> world \<Rightarrow> string \<Rightarrow> (exn + json) \<times> world" where
  "callWatsonx rt e w prompt =
     (if \<not> truthy_str (WATSON_PREDICTION_URL e) \<and>
         (\<not> truthy_str (WATSON_URL e) \<or> \<not> truthy_str (WATSON_DEPLOYMENT_ID e))
      then (Inl (Error ''Either WATSON_PREDICTION_URL or (WATSON_URL and WATSON_DEPLOYMENT_ID) must be set''), w)
      else
        (let u = (if truthy_str (WATSON_PREDICTION_URL e) then nullish (WATSON_PREDICTION_URL e) []
                  else strip_slash (nullish (WATSON_URL e) []) @ ''/v1/deployments/'' @
                       nullish (WATSON_DEPLOYMENT_ID e) [] @ ''/predictions'');
             requestBody = Json (JObj [(''input'', JObj [(''text'', JStr prompt)])]);
             isChatEndpoint = (includes_str u ''/text/chat'' \<or>
                               toLowerCase (env_or (WATSON_REQUEST_STYLE e) []) = ''chat'')
         in case chooseAuth rt e w of
              (Inl err, w1) \<Rightarrow> (Inl err, w1)
            | (Inr a, w1) \<Rightarrow>
                (case post w1
                        \<lparr>url = u,
                         body = (if isChatEndpoint
                                 then Json (JObj [(''messages'',
                                        JArr [JObj [(''role'', JStr ''user''),
                                                    (''content'',
                                                     JStr (systemInstruction @ nl @ nl @ prompt))]])])
                                 else requestBody),
                         auth = a\<rparr> of
                   (Inr data, w2) \<Rightarrow> (Inr data, w2)
                 | (Inl err, w2) \<Rightarrow>
                     if isChatEndpoint then
                       (case callWatsonxChatStyle u prompt a w2 of
                          (Inr chatResp, w3) \<Rightarrow> (Inr chatResp, w3)
                        | (Inl inner, w3) \<Rightarrow>
                            (case callWatsonxChatStyleAlt u prompt a w3 of
                               (Inr altResp, w4) \<Rightarrow> (Inr altResp, w4)
                             | (Inl altErr, w4) \<Rightarrow> (Inl err, w4)))
                     else (Inl err, w2))))"

definition isWatsonConfigured :: "env \<Rightarrow> bool" where
  "isWatsonConfigured e =
     (if truthy_str (WATSON_PREDICTION_URL e) then True
      else if truthy_str (WATSON_URL e) \<and> truthy_str (WATSON_DEPLOYMENT_ID e) \<and>
              truthy_str (WATSON_APIKEY e) then True
      else False)"

section \<open>Extraction of JSON from the assistant's text: extractJsonFromText\<close>

text \<open>\<open>\s\<close> is the white space of \<open>is_space\<close>; \<open>[\s\S]\<close> is any code unit.\<close>

text \<open>
  \<open>/```(?:json)?\n?([\s\S]*?)```/g\<close>, with a name for the part after the optional
  \<open>json\<close> and newline.
\<close>

definition fence_body :: regex where
  "fence_body = Cat (Group LazyAny) (Lit ''```'')"

definition fence_rx :: regex where
  "fence_rx = Cat (Lit ''```'') (Cat (Opt (Lit ''json'')) (Cat (Opt (Lit nl)) fence_body))"

text \<open>\<open>/\{[\s\S]*\}/\<close>, with a name for the part after the opening brace.\<close>

definition object_tail :: regex where
  "object_tail = Cat (Rep (\<lambda>c. True) 0 None) (Lit ''}'')"

definition object_rx :: regex where
  "object_rx = Cat (Lit ''{'') object_tail"

text \<open>\<open>/,\s*}/g\<close> and \<open>/,\s*]/g\<close>, with a name for the part after the comma.\<close>

definition space_then :: "char \<Rightarrow> regex" where
  "space_then closing = Cat (Rep is_space 0 None) (Lit [closing])"

definition comma_rx :: "char \<Rightarrow> regex" where
  "comma_rx closing = Cat (Lit '','') (space_then closing)"

text \<open>
  Lines 282 to 284: the fence markers are removed and their content kept, then every
  backtick is removed.
\<close>

definition strip_markdown :: "string \<Rightarrow> string" where
  "strip_markdown s =
     replaceAll False (Lit ''`'') (\<lambda>m. [])
       (replaceAll False fence_rx (\<lambda>m. nullish (group1 m) []) s)"

text \<open>Lines 287 to 289: the text \<open>jsonText\<close> that is handed to \<open>JSON.parse\<close>, if there is one.\<close>

definition json_text :: "string \<Rightarrow> string option" where
  "json_text s = map_option matched (rx_exec False object_rx (strip_markdown s))"

text \<open>Line 294: the commas before a closing brace or bracket are removed.\<close>

definition strip_trailing_commas :: "string \<Rightarrow> string" where
  "strip_trailing_commas s =
     replaceAll False (comma_rx CHR '']'') (\<lambda>m. '']'')
       (replaceAll False (comma_rx CHR ''}'') (\<lambda>m. ''}'') s)"

text \<open>The function on a string that is not empty.\<close>

definition extract_json :: "runtime \<Rightarrow> string \<Rightarrow> json" where
  "extract_json rt s =
     (case json_text s of
        None \<Rightarrow> JNull
      | Some jsonText \<Rightarrow>
          (case JSON_parse rt jsonText of
             Some v \<Rightarrow> v
           | None \<Rightarrow>
               (case JSON_parse rt (strip_trailing_commas jsonText) of
                  Some v \<Rightarrow> v
                | None \<Rightarrow> JNull)))"

definition extractJsonFromText :: "runtime \<Rightarrow> json \<Rightarrow> json" where
  "extractJsonFromText rt s =
     (case s of
        JStr t \<Rightarrow> if t = [] then JNull else extract_json rt t
      | _ \<Rightarrow> JNull)"

section \<open>The entry point: analyzeLabReport\<close>

record lab_report =
  assessments :: "assessment list"
  result :: json
  rawWatson :: json

text \<open>
  The local fallback, lines 324 to 336 and again 347 to 359. The explanation of a result
  with status normal reads \<open>a.normalRange.low\<close>, which throws when there is no
  \<open>normalRange\<close>.
\<close>

definition explanation_text :: "runtime \<Rightarrow> assessment \<Rightarrow> exn + string" where
  "explanation_text rt a =
     (if a_status a = Normal then
        (case normalRange a of
           None \<Rightarrow> Inl (TypeError ''Cannot read properties of undefined (reading low)'')
         | Some (lo, hi) \<Rightarrow>
             Inr (''Your '' @ key a @ '' is within the normal range ('' @ bound_str rt lo @ ''-'' @
                  bound_str rt hi @ '' '' @ nullish (a_unit a) ''undefined'' @ '').''))
      else
        Inr (''Your '' @ key a @ '' is '' @ status_str (a_status a) @ '' (value '' @
             num_str rt (val a) @ '' '' @ nullish (a_unit a) ''undefined'' @ ''). Severity: '' @
             severity_str (a_severity a) @ ''. We recommend medical follow-up.''))"

definition local_explanation :: "runtime \<Rightarrow> assessment \<Rightarrow> exn + json" where
  "local_explanation rt a =
     (case explanation_text rt a of
        Inl e \<Rightarrow> Inl e
      | Inr t \<Rightarrow>
          Inr (JObj [(''key'', JStr (key a)), (''explanation'', JStr t),
                     (''severity'', JStr (severity_str (a_severity a)))]))"

definition local_result :: "runtime \<Rightarrow> assessment list \<Rightarrow> exn + json" where
  "local_result rt as =
     (case collect (map (local_explanation rt) as) of
        Inl e \<Rightarrow> Inl e
      | Inr localExplanations \<Rightarrow>
          Inr (JObj
            [(''explanations'', JArr localExplanations),
             (''action_items'',
              JArr (map (\<lambda>a. JStr (''URGENT: see a doctor for '' @ key a))
                     (filter (\<lambda>a. a_severity a = Severe) as))),
             (''questions'', JArr [JStr ''Please consult a doctor for next steps.''])]))"

text \<open>
  Lines 366 to 389: the generated content of the response. Reading a property of \<open>null\<close>
  throws; the exception is caught and the response itself is the result.
\<close>

definition chat_content :: "json \<Rightarrow> json option" where
  "chat_content resp =
     (if \<not> truthy resp then None
      else case get_prop resp ''choices'' of
        None \<Rightarrow> None
      | Some cs \<Rightarrow>
          if \<not> truthy cs then None
          else (case index0 cs of
            None \<Rightarrow> None
          | Some c0 \<Rightarrow>
              if \<not> truthy c0 then None
              else (case get_prop c0 ''message'' of
                None \<Rightarrow> None
              | Some msg \<Rightarrow>
                  if \<not> truthy msg then None
                  else (case get_prop msg ''content'' of
                    None \<Rightarrow> None
                  | Some content \<Rightarrow> if truthy content then Some content else None))))"

definition first_truthy :: "json option list \<Rightarrow> json option" where
  "first_truthy vs = (case filter truthy_opt vs of [] \<Rightarrow> None | v # _ \<Rightarrow> v)"

definition predictions0 :: "json \<Rightarrow> json option" where
  "predictions0 resp =
     (case get_prop resp ''predictions'' of
        None \<Rightarrow> None
      | Some ps \<Rightarrow>
          if \<not> truthy ps then None
          else (case index0 ps of
            None \<Rightarrow> None
          | Some p0 \<Rightarrow> if truthy p0 then Some p0 else None))"

definition output_generations :: "json \<Rightarrow> json option" where
  "output_generations resp =
     (case get_prop resp ''output'' of
        None \<Rightarrow> None
      | Some out \<Rightarrow>
          if \<not> truthy out then None
          else (case get_prop out ''generations'' of
            None \<Rightarrow> None
          | Some g \<Rightarrow> if truthy g then Some g else None))"

definition generated_try :: "runtime \<Rightarrow> json \<Rightarrow> exn + json" where
  "generated_try rt watsonResp =
     (case chat_content watsonResp of
        Some content \<Rightarrow>
          (let parsed = extractJsonFromText rt content in
           if truthy parsed then Inr parsed
           else Inr (JObj [(''raw_assistant'', content)]))
      | None \<Rightarrow>
          if watsonResp = JNull
          then Inl (TypeError ''Cannot read properties of null (reading predictions)'')
          else
            (case predictions0 watsonResp of
               Some p0 \<Rightarrow>
                 Inr (case first_truthy [get_prop p0 ''result'', get_prop p0 ''output''] of
                        Some v \<Rightarrow> v
                      | None \<Rightarrow> p0)
             | None \<Rightarrow>
                 (case output_generations watsonResp of
                    Some g \<Rightarrow> Inr g
                  | None \<Rightarrow> Inr watsonResp)))"

definition generated :: "runtime \<Rightarrow> json \<Rightarrow> json" where
  "generated rt watsonResp =
     (case generated_try rt watsonResp of Inr g \<Rightarrow> g | Inl e \<Rightarrow> watsonResp)"

text \<open>
  The loop of lines 313 to 318 over \<open>Object.keys(parsedMap)\<close>, with the table
  \<open>thresholds\<close> of the module. An exception of \<open>assessValue\<close> ends the loop.
\<close>

definition assess_all :: "string \<Rightarrow> patientMeta \<Rightarrow> exn + assessment list" where
  "assess_all rawText meta =
     collect (map (\<lambda>(k, v). assessValue thresholds k v meta) (parseLabValues rawText))"

text \<open>
  The function returns a promise; the model returns the value the promise resolves to,
  or the exception it rejects with, and the state of the world afterwards.
\<close>

definition analyzeLabReport ::
  "runtime \<Rightarrow> env \<Rightarrow> world \<Rightarrow> string \<Rightarrow> patientMeta \<Rightarrow> (exn + lab_report) \<times> world" where
  "analyzeLabReport rt e w rawText meta =
     (case assess_all rawText meta of
        Inl err \<Rightarrow> (Inl err, w)
      | Inr as \<Rightarrow>
          (case createWatsonPrompt rt as meta of
             Inl err \<Rightarrow> (Inl err, w)
           | Inr prompt \<Rightarrow>
               if \<not> isWatsonConfigured e then
                 (case local_result rt as of
                    Inl err \<Rightarrow> (Inl err, w)
                  | Inr res \<Rightarrow> (Inr \<lparr>assessments = as, result = res, rawWatson = JNull\<rparr>, w))
               else
                 (case callWatsonx rt e w prompt of
                    (Inl err, w1) \<Rightarrow>
                      (case local_result rt as of
                         Inl err' \<Rightarrow> (Inl err', w1)
                       | Inr res \<Rightarrow>
                           (Inr \<lparr>assessments = as, result = res, rawWatson = JNull\<rparr>, w1))
                  | (Inr watsonResp, w1) \<Rightarrow>
                      (Inr \<lparr>assessments = as, result = generated rt watsonResp,
                            rawWatson = watsonResp\<rparr>, w1))))"

text \<open>
  A text has a trailing comma before the character \<open>c\<close> when somewhere in it a comma is
  followed by white space, or none, and then \<open>c\<close>.
\<close>

definition comma_before :: "char \<Rightarrow> string \<Rightarrow> bool" where
  "comma_before c s =
     (case s of
        [] \<Rightarrow> False
      | x # xs \<Rightarrow>
          x = CHR '','' \<and> (case dropWhile is_space xs of [] \<Rightarrow> False | y # ys \<Rightarrow> y = c))"

fun has_comma_before :: "char \<Rightarrow> string \<Rightarrow> bool" where
  "has_comma_before c [] = False"
| "has_comma_before c (x # xs) = (comma_before c (x # xs) \<or> has_comma_before c xs)"

definition no_trailing_comma :: "string \<Rightarrow> bool" where
  "no_trailing_comma s = (\<not> has_comma_before CHR ''}'' s \<and> \<not> has_comma_before CHR '']'' s)"

text \<open>The prompt \<open>analyzeLabReport\<close> builds for a text, when building it does not throw.\<close>

definition the_prompt :: "runtime \<Rightarrow> string \<Rightarrow> patientMeta \<Rightarrow> string" where
  "the_prompt rt rawText meta =
     (case assess_all rawText meta of
        Inl e \<Rightarrow> []
      | Inr as \<Rightarrow> (case createWatsonPrompt rt as meta of Inr p \<Rightarrow> p | Inl e \<Rightarrow> []))"

text \<open>
  The shape of a normalized result: an object with the fields \<open>explanations\<close>,
  \<open>action_items\<close> and \<open>questions\<close>, in this order and no others, each an array.
\<close>

fun is_array :: "json \<Rightarrow> bool" where
  "is_array (JArr _) = True"
| "is_array _ = False"

fun normalized_shape :: "json \<Rightarrow> bool" where
  "normalized_shape (JObj fs) =
     (map fst fs = [''explanations'', ''action_items'', ''questions''] \<and>
      list_all is_array (map snd fs))"
| "normalized_shape _ = False"

fun is_object :: "json \<Rightarrow> bool" where
  "is_object (JObj _) = True"
| "is_object _ = False"

text \<open>Sample inputs: no variable set; a prediction URL and a key; a world at rest.\<close>

definition no_env :: env where
  "no_env =
     \<lparr>WATSON_PREDICTION_URL = None, WATSON_DEPLOYMENT_ID = None, WATSON_URL = None,
      WATSON_APIKEY = None, WATSON_REQUEST_STYLE = None, WATSON_AUTH_FLOW = None,
      WATSON_IAM_URL = None\<rparr>"

definition url_env :: env where
  "url_env =
     no_env\<lparr>WATSON_PREDICTION_URL := Some ''https://example.test/ml/v1/predictions'',
            WATSON_APIKEY := Some ''k''\<rparr>"

definition world0 :: "reply list \<Rightarrow> world" where
  "world0 rs = \<lparr>clock = 0, cache_token = None, cache_expiresAt = Fin 0, replies = rs, sent = []\<rparr>"

text \<open>
  A reply of the service in the prediction style: a payload whose first prediction has
  a text as its result.
\<close>

definition prediction_reply :: reply where
  "prediction_reply =
     \<lparr>elapsed = 0,
      outcome = Data (JObj [(''predictions'',
                  JArr [JObj [(''result'', JStr ''Your hemoglobin is low.'')]])])\<rparr>"

text \<open>A reply whose body is not JSON: the data of the response is the body, a string.\<close>

definition text_reply :: reply where
  "text_reply = \<lparr>elapsed = 0, outcome = Data (JStr ''upstream unavailable'')\<rparr>"

text \<open>
  A runtime for the closed examples. The properties below hold for every runtime; at
  the inputs of the examples the values of its operations do not reach the results
  that are stated.
\<close>

definition some_runtime :: runtime where
  "some_runtime =
     \<lparr>ToString = (\<lambda>j. case j of JStr s \<Rightarrow> s | _ \<Rightarrow> ''?''),
      ToNumber = (\<lambda>j. case j of JNum n \<Rightarrow> n | _ \<Rightarrow> NaN),
      JSON_stringify = (\<lambda>j. ''{}''),
      JSON_parse = (\<lambda>s. None)\<rparr>"

text \<open>
  A runtime that prints the numbers 8.9, 150 and 450 as JavaScript prints them.
\<close>

definition printing_runtime :: runtime where
  "printing_runtime =
     some_runtime\<lparr>ToString :=
       (\<lambda>j. case map_of [(JNum (Fin 8.9), ''8.9''), (JNum (Fin 150), ''150''),
                              (JNum (Fin 450), ''450'')] j of
               Some s \<Rightarrow> s
             | None \<Rightarrow> ToString some_runtime j)\<rparr>"

text \<open>The names of the fields of a value, in order; a value that is no object has none.\<close>

fun obj_keys :: "json \<Rightarrow> string list" where
  "obj_keys (JObj fs) = map fst fs"
| "obj_keys _ = []"









section \<open>Properties of the rule engine\<close>

lemma js_le_not_lt: "js_le (Fin l) v \<Longrightarrow> \<not> js_lt v (Fin l)"
  by (cases v) auto

lemma js_le_not_gt: "js_le v (Fin h) \<Longrightarrow> \<not> js_gt v (Fin h)"
  by (cases v) (auto simp: js_gt_def)

lemma div_zero_not_lt: "js_le (Fin 0) v \<Longrightarrow> \<not> js_lt (js_div v (Fin 0)) (Fin c)"
  by (cases v) auto

lemma lookup_Entry: "th k = Some c \<Longrightarrow> lookup th k = Some (Entry c)"
  by (simp add: lookup_def)

text \<open>For a key with an entry the function returns, and this is what it returns.\<close>

lemma assessValue_Entry:
  assumes "th k = Some c" and "resolveBounds c meta = (lo, hi)"
  shows "\<exists>a. assessValue th k v meta = Inr a \<and> key a = k \<and> val a = v \<and>
     normalRange a = Some (lo, hi) \<and> a_unit a = Some (nullish (unit c) []) \<and>
     (a_severity a, a_status a) =
       (if lowerIsBad lo hi v then
          (if js_lt (js_div v (bound_num lo)) (Fin (nullish (severe (severity c)) 0.7))
           then (Severe, Low)
           else if js_lt (js_div v (bound_num lo)) (Fin (nullish (moderate (severity c)) 0.85))
           then (Moderate, Low)
           else if js_lt (js_div v (bound_num lo)) (Fin 1) then (Mild, Low)
           else (SNormal, Normal))
        else
          (case hi of
             None \<Rightarrow> (SNormal, Normal)
           | Some h \<Rightarrow>
               if js_gt v (Fin h) then
                 (if js_gt (js_div v (Fin h)) (Fin (nullish (severe (severity c)) 1.5))
                  then (Severe, High)
                  else if js_gt (js_div v (Fin h)) (Fin (nullish (moderate (severity c)) 1.2))
                  then (Moderate, High)
                  else (Mild, High))
               else (SNormal, Normal)))"
  using assms
  by (simp add: assessValue_def lookup_Entry Let_def split: option.split)

text \<open>
  C4. For an analyte whose resolved reference range has both bounds \<open>L\<close> and \<open>H\<close>, and
  every value \<open>v\<close> with \<open>L \<le> v \<le> H\<close>, \<open>assessValue\<close> returns an assessment with status normal
  and severity normal.
\<close>

theorem assessValue_in_range_normal:
  assumes "th k = Some c"
    and "resolveBounds c meta = (Some L, Some H)"
    and "js_le (Fin L) v" and "js_le v (Fin H)"
  shows "\<exists>a. assessValue th k v meta = Inr a \<and> a_status a = Normal \<and> a_severity a = SNormal"
proof -
  from assessValue_Entry [of th k c meta "Some L" "Some H" v] assms(1,2) obtain a where
    a: "assessValue th k v meta = Inr a"
    and g: "(a_severity a, a_status a) =
       (if lowerIsBad (Some L) (Some H) v then
          (if js_lt (js_div v (bound_num (Some L))) (Fin (nullish (severe (severity c)) 0.7))
           then (Severe, Low)
           else if js_lt (js_div v (bound_num (Some L))) (Fin (nullish (moderate (severity c)) 0.85))
           then (Moderate, Low)
           else if js_lt (js_div v (bound_num (Some L))) (Fin 1) then (Mild, Low)
           else (SNormal, Normal))
        else
          (if js_gt v (Fin H) then
             (if js_gt (js_div v (Fin H)) (Fin (nullish (severe (severity c)) 1.5))
              then (Severe, High)
              else if js_gt (js_div v (Fin H)) (Fin (nullish (moderate (severity c)) 1.2))
              then (Moderate, High)
              else (Mild, High))
           else (SNormal, Normal)))"
    by auto
  have "(a_severity a, a_status a) = (SNormal, Normal)"
  proof (cases "L = 0")
    case True
    with assms(3) have "\<not> js_lt (js_div v (Fin 0)) (Fin x)" for x
      by (simp add: div_zero_not_lt)
    with g True js_le_not_gt [OF assms(4)] show ?thesis
      by (simp add: lowerIsBad_def bound_num_def)
  next
    case False
    with g js_le_not_lt [OF assms(3)] js_le_not_gt [OF assms(4)] show ?thesis
      by (simp add: lowerIsBad_def bound_num_def)
  qed
  with a show ?thesis by simp
qed

lemma platelet_any:
  "thresholds ''platelet'' = Some platelet_conf"
  "resolveBounds platelet_conf no_meta = (Some 150, Some 450)"
  by (simp_all add: thresholds_def resolveBounds_def platelet_conf_def nullish_def
      toLowerCase_def no_meta_def)

theorem assessValue_in_range_normal_witness:
  "\<exists>a. assessValue thresholds ''platelet'' (Fin 220) no_meta = Inr a \<and>
     a_status a = Normal \<and> a_severity a = SNormal"
proof -
  have 3: "js_le (Fin 150) (Fin 220)" "js_le (Fin 220) (Fin 450)"
    by simp_all
  show ?thesis
    using assessValue_in_range_normal
      [of thresholds "''platelet''" platelet_conf no_meta 150 450 "Fin 220"] platelet_any 3
    by blast
qed

lemma js_div_pos_mono:
  "0 < L \<Longrightarrow> js_lt v2 v1 \<Longrightarrow> js_lt (js_div v1 (Fin L)) (Fin c) \<Longrightarrow>
   js_lt (js_div v2 (Fin L)) (Fin c)"
  by (cases v1; cases v2) (auto simp: pos_divide_less_eq)

lemma js_div_neg_ge:
  assumes "L < 0" and "js_lt v (Fin L)" and "c \<le> 1"
  shows "\<not> js_lt (js_div v (Fin L)) (Fin c)"
proof (cases v)
  case (Fin x)
  with assms(2) have "x < L" by simp
  with assms(1) have "1 < x / L" by (simp add: less_divide_eq_1_neg)
  with assms(3) have "\<not> x / L < c" by linarith
  with assms(1) Fin show ?thesis by simp
qed (use assms in auto)

lemma js_div_zero_neg: "js_lt v (Fin 0) \<Longrightarrow> js_lt (js_div v (Fin 0)) (Fin c)"
  by (cases v) auto

lemma below_lowerIsBad: "js_lt v (Fin L) \<Longrightarrow> lowerIsBad (Some L) (Some H) v"
  by (cases v) (auto simp: lowerIsBad_def)

lemma hemoglobin_male:
  "thresholds ''hemoglobin'' = Some hemoglobin_conf"
  "resolveBounds hemoglobin_conf male = (Some 13.5, Some 17.5)"
  by (simp_all add: thresholds_def resolveBounds_def hemoglobin_conf_def male_def nullish_def
      toLowerCase_def lower_char_def)

text \<open>
  C5. For a configured analyte whose cutoffs satisfy severe \<open>\<le>\<close> moderate \<open>\<le>\<close> mild \<open>\<le>\<close> 1,
  and two values \<open>v2 < v1\<close> both strictly below the resolved \<open>normalLow\<close>, \<open>assessValue\<close>
  returns for both, and the severity of \<open>v2\<close> is at least as bad as the severity of \<open>v1\<close>.
\<close>

theorem assessValue_monotone_below_low:
  assumes "th k = Some c"
    and "resolveBounds c meta = (Some L, hi)"
    and "severe (severity c) = Some s" and "moderate (severity c) = Some m"
    and "mild (severity c) = Some mi"
    and "s \<le> m" and "m \<le> mi" and "mi \<le> 1"
    and "js_lt v2 v1" and "js_lt v1 (Fin L)" and "js_lt v2 (Fin L)"
  shows "\<exists>a1 a2. assessValue th k v1 meta = Inr a1 \<and> assessValue th k v2 meta = Inr a2 \<and>
           at_least_as_bad (a_severity a2) (a_severity a1)"
proof -
  from assessValue_Entry [of th k c meta "Some L" hi v1] assms(1,2) obtain a1 where
    a1: "assessValue th k v1 meta = Inr a1"
    and g1: "(a_severity a1, a_status a1) =
       (if lowerIsBad (Some L) hi v1 then
          (if js_lt (js_div v1 (bound_num (Some L))) (Fin (nullish (severe (severity c)) 0.7))
           then (Severe, Low)
           else if js_lt (js_div v1 (bound_num (Some L))) (Fin (nullish (moderate (severity c)) 0.85))
           then (Moderate, Low)
           else if js_lt (js_div v1 (bound_num (Some L))) (Fin 1) then (Mild, Low)
           else (SNormal, Normal))
        else
          (case hi of
             None \<Rightarrow> (SNormal, Normal)
           | Some h \<Rightarrow>
               if js_gt v1 (Fin h) then
                 (if js_gt (js_div v1 (Fin h)) (Fin (nullish (severe (severity c)) 1.5))
                  then (Severe, High)
                  else if js_gt (js_div v1 (Fin h)) (Fin (nullish (moderate (severity c)) 1.2))
                  then (Moderate, High)
                  else (Mild, High))
               else (SNormal, Normal)))"
    by auto
  from assessValue_Entry [of th k c meta "Some L" hi v2] assms(1,2) obtain a2 where
    a2: "assessValue th k v2 meta = Inr a2"
    and g2: "(a_severity a2, a_status a2) =
       (if lowerIsBad (Some L) hi v2 then
          (if js_lt (js_div v2 (bound_num (Some L))) (Fin (nullish (severe (severity c)) 0.7))
           then (Severe, Low)
           else if js_lt (js_div v2 (bound_num (Some L))) (Fin (nullish (moderate (severity c)) 0.85))
           then (Moderate, Low)
           else if js_lt (js_div v2 (bound_num (Some L))) (Fin 1) then (Mild, Low)
           else (SNormal, Normal))
        else
          (case hi of
             None \<Rightarrow> (SNormal, Normal)
           | Some h \<Rightarrow>
               if js_gt v2 (Fin h) then
                 (if js_gt (js_div v2 (Fin h)) (Fin (nullish (severe (severity c)) 1.5))
                  then (Severe, High)
                  else if js_gt (js_div v2 (Fin h)) (Fin (nullish (moderate (severity c)) 1.2))
                  then (Moderate, High)
                  else (Mild, High))
               else (SNormal, Normal)))"
    by auto
  have "at_least_as_bad (a_severity a2) (a_severity a1)"
  proof (cases hi)
    case None
    with g1 g2 show ?thesis
      by (simp add: lowerIsBad_def at_least_as_bad_def)
  next
    case (Some H)
    define f where
      "f p = (if js_lt p (Fin s) then Severe else if js_lt p (Fin m) then Moderate
              else if js_lt p (Fin 1) then Mild else SNormal)" for p
    from g1 Some assms(3,4) below_lowerIsBad [OF assms(10), of H]
    have s1: "a_severity a1 = f (js_div v1 (Fin L))"
      by (simp add: f_def nullish_def bound_num_def split: if_splits)
    from g2 Some assms(3,4) below_lowerIsBad [OF assms(11), of H]
    have s2: "a_severity a2 = f (js_div v2 (Fin L))"
      by (simp add: f_def nullish_def bound_num_def split: if_splits)
    consider "0 < L" | "L < 0" | "L = 0" by linarith
    then have "at_least_as_bad (f (js_div v2 (Fin L))) (f (js_div v1 (Fin L)))"
    proof cases
      case 1
      from js_div_pos_mono [OF 1 assms(9)] show ?thesis
        by (auto simp: f_def at_least_as_bad_def)
    next
      case 2
      have "s \<le> 1" "m \<le> 1" using assms(6,7,8) by linarith+
      with js_div_neg_ge [OF 2 assms(10)] js_div_neg_ge [OF 2 assms(11)] show ?thesis
        by (simp add: f_def at_least_as_bad_def)
    next
      case 3
      with js_div_zero_neg assms(10,11) show ?thesis
        by (simp add: f_def at_least_as_bad_def)
    qed
    with s1 s2 show ?thesis by simp
  qed
  with a1 a2 show ?thesis by blast
qed

lemma hemoglobin_9_12:
  "assessValue thresholds ''hemoglobin'' (Fin 12) male =
     Inr \<lparr>key = ''hemoglobin'', val = Fin 12, a_unit = Some ''g/dL'',
          normalRange = Some (Some 13.5, Some 17.5), a_status = Low, a_severity = Mild,
          a_note = None\<rparr>"
  "assessValue thresholds ''hemoglobin'' (Fin 9) male =
     Inr \<lparr>key = ''hemoglobin'', val = Fin 9, a_unit = Some ''g/dL'',
          normalRange = Some (Some 13.5, Some 17.5), a_status = Low, a_severity = Severe,
          a_note = None\<rparr>"
  using hemoglobin_male
  by (simp_all add: assessValue_def lookup_Entry lowerIsBad_def bound_num_def hemoglobin_conf_def
      nullish_def)

theorem assessValue_monotone_below_low_witness:
  "\<exists>a1 a2. assessValue thresholds ''hemoglobin'' (Fin 12) male = Inr a1 \<and>
     assessValue thresholds ''hemoglobin'' (Fin 9) male = Inr a2 \<and>
     a_severity a1 = Mild \<and> a_severity a2 = Severe \<and>
     at_least_as_bad (a_severity a2) (a_severity a1)"
proof -
  have c: "severe (severity hemoglobin_conf) = Some 0.7" "moderate (severity hemoglobin_conf) = Some 0.85"
    "mild (severity hemoglobin_conf) = Some 0.95"
    by (simp_all add: hemoglobin_conf_def)
  have o: "(0.7::real) \<le> 0.85" "(0.85::real) \<le> 0.95" "(0.95::real) \<le> 1"
    by simp_all
  have v: "js_lt (Fin 9) (Fin 12)" "js_lt (Fin 12) (Fin 13.5)" "js_lt (Fin 9) (Fin 13.5)"
    by simp_all
  show ?thesis
    using assessValue_monotone_below_low
      [of thresholds "''hemoglobin''" hemoglobin_conf male "13.5" "Some 17.5" "0.7" "0.85"
        "0.95" "Fin 9" "Fin 12"]
      hemoglobin_male c o v hemoglobin_9_12
    by auto
qed

text \<open>
  The coupling of status and severity in every assessment the function returns: the
  severity is normal exactly when the status is normal, it is mild, moderate or severe
  exactly when the status is low or high, and status and severity are unknown together,
  exactly when the lookup \<open>thresholds[key]\<close> finds nothing.
\<close>

lemma assessValue_coupled:
  assumes "assessValue th k v meta = Inr a"
  shows "(a_severity a = SNormal \<longleftrightarrow> a_status a = Normal) \<and>
         (a_severity a \<in> {Mild, Moderate, Severe} \<longleftrightarrow> a_status a \<in> {Low, High}) \<and>
         (a_status a = Unknown \<longleftrightarrow> a_severity a = SUnknown) \<and>
         (a_status a = Unknown \<longleftrightarrow> lookup th k = None)"
  using assms
  by (auto simp: assessValue_def unbounded_def Let_def
      split: option.splits member.splits prod.splits if_splits)

text \<open>
  C10, the failing input. The key \<open>constructor\<close> has no entry in the thresholds table,
  but \<open>thresholds['constructor']\<close> is the function \<open>Object\<close>, which the table inherits from
  its prototype, so the guard of line 42 does not fire: \<open>assessValue('constructor', 5, {})\<close>
  returns status normal and severity normal, not unknown.
\<close>

theorem assessValue_inherited_key:
  "thresholds ''constructor'' = None \<and>
   assessValue thresholds ''constructor'' (Fin 5) no_meta =
     Inr \<lparr>key = ''constructor'', val = Fin 5, a_unit = Some [], normalRange = Some (None, None),
          a_status = Normal, a_severity = SNormal, a_note = None\<rparr>"
  by (simp add: thresholds_def assessValue_def lookup_def object_prototype_methods_def
      unbounded_def no_meta_def nullish_def toLowerCase_def)

theorem assessValue_inherited_key_witness:
  "\<exists>a. assessValue thresholds ''constructor'' (Fin 5) no_meta = Inr a \<and>
     a_status a \<noteq> Unknown \<and> a_severity a \<noteq> SUnknown \<and> thresholds ''constructor'' = None"
  using assessValue_inherited_key by simp

text \<open>
  C6, as stated, fails: the configured mild cutoff is never read. For a male patient a
  hemoglobin of 13.4 has the ratio 13.4 / 13.5 to \<open>normalLow\<close>, which is not below the
  configured mild cutoff 0.95, and it is classified mild all the same: the boundary of the
  mild class is the constant 1.
\<close>

theorem assessValue_mild_cutoff_counterexample:
  "mild (severity hemoglobin_conf) = Some 0.95 \<and>
   \<not> js_lt (js_div (Fin 13.4) (Fin 13.5)) (Fin 0.95) \<and>
   assessValue thresholds ''hemoglobin'' (Fin 13.4) male =
     Inr \<lparr>key = ''hemoglobin'', val = Fin 13.4, a_unit = Some ''g/dL'',
          normalRange = Some (Some 13.5, Some 17.5), a_status = Low, a_severity = Mild,
          a_note = None\<rparr>"
  using hemoglobin_male
  by (simp add: assessValue_def lookup_Entry lowerIsBad_def bound_num_def hemoglobin_conf_def
      nullish_def)

lemma below_pos_ratio: "0 < L \<Longrightarrow> js_lt v (Fin L) \<Longrightarrow> js_lt (js_div v (Fin L)) (Fin 1)"
  by (cases v) auto

lemma above_not_below:
  "0 < L \<Longrightarrow> L \<le> H \<Longrightarrow> js_gt v (Fin H) \<Longrightarrow> \<not> lowerIsBad (Some L) (Some H) v"
  by (cases v) (auto simp: lowerIsBad_def js_gt_def)

text \<open>
  C6, amended. For a configured analyte, with its resolved bounds, \<open>assessValue\<close> returns
  an assessment, and:

  \<^item> when the range has both bounds and \<open>normalLow\<close> is a positive \<open>L\<close>, a value below \<open>L\<close>
    has status low and is severe when its ratio to \<open>L\<close> is below the analyte's severe
    cutoff (0.7 when the entry has none), else moderate when the ratio is below its
    moderate cutoff (0.85 when the entry has none), else mild;

  \<^item> when the range has a \<open>normalHigh\<close> \<open>H\<close>, and either no \<open>normalLow\<close> or a positive one
    that is at most \<open>H\<close>, a value above \<open>H\<close> has status high and is severe when its ratio to
    \<open>H\<close> exceeds the severe cutoff (1.5 when the entry has none), else moderate when it
    exceeds the moderate cutoff (1.2 when the entry has none), else mild;

  \<^item> when the range has no \<open>normalHigh\<close>, every value is assessed normal (the lower-is-bad
    branch needs both bounds);

  \<^item> the configured mild cutoff does not enter the result.
\<close>

theorem assessValue_classes:
  assumes "th k = Some c"
    and "resolveBounds c meta = (lo, hi)"
  shows "\<exists>a. assessValue th k v meta = Inr a \<and>
     (lo = Some L \<and> hi = Some H \<and> 0 < L \<and> js_lt v (Fin L) \<longrightarrow>
        a_status a = Low \<and>
        a_severity a =
          (if js_lt (js_div v (Fin L)) (Fin (nullish (severe (severity c)) 0.7)) then Severe
           else if js_lt (js_div v (Fin L)) (Fin (nullish (moderate (severity c)) 0.85)) then Moderate
           else Mild)) \<and>
     (hi = Some H \<and> (lo = None \<or> lo = Some L \<and> 0 < L \<and> L \<le> H) \<and> js_gt v (Fin H) \<longrightarrow>
        a_status a = High \<and>
        a_severity a =
          (if js_gt (js_div v (Fin H)) (Fin (nullish (severe (severity c)) 1.5)) then Severe
           else if js_gt (js_div v (Fin H)) (Fin (nullish (moderate (severity c)) 1.2)) then Moderate
           else Mild)) \<and>
     (hi = None \<longrightarrow> a_status a = Normal \<and> a_severity a = SNormal) \<and>
     assessValue (th(k \<mapsto> c\<lparr>severity := (severity c)\<lparr>mild := mi\<rparr>\<rparr>)) k v meta = Inr a"
proof -
  from assessValue_Entry [of th k c meta lo hi v] assms obtain a where
    a: "assessValue th k v meta = Inr a"
    and g: "(a_severity a, a_status a) =
       (if lowerIsBad lo hi v then
          (if js_lt (js_div v (bound_num lo)) (Fin (nullish (severe (severity c)) 0.7))
           then (Severe, Low)
           else if js_lt (js_div v (bound_num lo)) (Fin (nullish (moderate (severity c)) 0.85))
           then (Moderate, Low)
           else if js_lt (js_div v (bound_num lo)) (Fin 1) then (Mild, Low)
           else (SNormal, Normal))
        else
          (case hi of
             None \<Rightarrow> (SNormal, Normal)
           | Some h \<Rightarrow>
               if js_gt v (Fin h) then
                 (if js_gt (js_div v (Fin h)) (Fin (nullish (severe (severity c)) 1.5))
                  then (Severe, High)
                  else if js_gt (js_div v (Fin h)) (Fin (nullish (moderate (severity c)) 1.2))
                  then (Moderate, High)
                  else (Mild, High))
               else (SNormal, Normal)))"
    by auto
  have low: "a_status a = Low \<and>
        a_severity a =
          (if js_lt (js_div v (Fin L)) (Fin (nullish (severe (severity c)) 0.7)) then Severe
           else if js_lt (js_div v (Fin L)) (Fin (nullish (moderate (severity c)) 0.85)) then Moderate
           else Mild)"
    if "lo = Some L \<and> hi = Some H \<and> 0 < L \<and> js_lt v (Fin L)"
  proof -
    from that have l: "lowerIsBad lo hi v" and r: "js_lt (js_div v (Fin L)) (Fin 1)"
      by (simp_all add: below_lowerIsBad below_pos_ratio)
    from that have b: "bound_num lo = Fin L" by (simp add: bound_num_def)
    from g l r show ?thesis unfolding b by (simp split: if_splits)
  qed
  have high: "a_status a = High \<and>
        a_severity a =
          (if js_gt (js_div v (Fin H)) (Fin (nullish (severe (severity c)) 1.5)) then Severe
           else if js_gt (js_div v (Fin H)) (Fin (nullish (moderate (severity c)) 1.2)) then Moderate
           else Mild)"
    if "hi = Some H \<and> (lo = None \<or> lo = Some L \<and> 0 < L \<and> L \<le> H) \<and> js_gt v (Fin H)"
  proof -
    from that have "\<not> lowerIsBad lo hi v"
      by (auto simp: above_not_below) (simp add: lowerIsBad_def)
    with g that show ?thesis by (simp split: if_splits)
  qed
  have none: "a_status a = Normal \<and> a_severity a = SNormal" if "hi = None"
    using g that by (simp add: lowerIsBad_def split: option.splits)
  have "resolveBounds (c\<lparr>severity := (severity c)\<lparr>mild := mi\<rparr>\<rparr>) meta = resolveBounds c meta"
    by (simp add: resolveBounds_def split: option.split)
  with assms
  have "assessValue (th(k \<mapsto> c\<lparr>severity := (severity c)\<lparr>mild := mi\<rparr>\<rparr>)) k v meta =
      assessValue th k v meta"
    by (simp add: assessValue_def lookup_def Let_def split: option.split)
  with a
  have same: "assessValue (th(k \<mapsto> c\<lparr>severity := (severity c)\<lparr>mild := mi\<rparr>\<rparr>)) k v meta = Inr a"
    by simp
  from a low high none same show ?thesis by blast
qed

lemma glucose_any:
  "thresholds ''glucose_fasting'' = Some glucose_fasting_conf"
  "resolveBounds glucose_fasting_conf no_meta = (Some 70, Some 99)"
  by (simp_all add: thresholds_def resolveBounds_def glucose_fasting_conf_def no_meta_def
      nullish_def toLowerCase_def)

lemma ldl_any:
  "(thresholds(''ldl'' \<mapsto> ldl_conf)) ''ldl'' = Some ldl_conf"
  "resolveBounds ldl_conf no_meta = (None, Some 100)"
  by (simp_all add: resolveBounds_def ldl_conf_def no_meta_def nullish_def toLowerCase_def)

theorem assessValue_classes_witness:
  "(\<exists>a. assessValue thresholds ''hemoglobin'' (Fin 13.4) male = Inr a \<and>
      a_status a = Low \<and> a_severity a = Mild \<and>
      assessValue
        (thresholds(''hemoglobin'' \<mapsto>
           hemoglobin_conf\<lparr>severity := (severity hemoglobin_conf)\<lparr>mild := Some 0.5\<rparr>\<rparr>))
        ''hemoglobin'' (Fin 13.4) male = Inr a) \<and>
   (\<exists>a. assessValue thresholds ''glucose_fasting'' (Fin 130) no_meta = Inr a \<and>
      a_status a = High \<and> a_severity a = Moderate) \<and>
   (\<exists>a. assessValue (thresholds(''ldl'' \<mapsto> ldl_conf)) ''ldl'' (Fin 130) no_meta = Inr a \<and>
      a_status a = High \<and> a_severity a = Moderate)"
proof -
  have c: "nullish (severe (severity hemoglobin_conf)) d = 0.7"
    "nullish (moderate (severity hemoglobin_conf)) d = 0.85"
    "nullish (severe (severity glucose_fasting_conf)) d = 1.5"
    "nullish (moderate (severity glucose_fasting_conf)) d = 1.25"
    "nullish (severe (severity ldl_conf)) d = d"
    "nullish (moderate (severity ldl_conf)) d = d" for d
    by (simp_all add: hemoglobin_conf_def glucose_fasting_conf_def ldl_conf_def nullish_def)
  from assessValue_classes [of thresholds "''hemoglobin''" hemoglobin_conf male "Some 13.5" "Some 17.5" "Fin 13.4" "13.5" "17.5" "Some 0.5"]
    hemoglobin_male
  have 1: "\<exists>a. assessValue thresholds ''hemoglobin'' (Fin 13.4) male = Inr a \<and>
      a_status a = Low \<and> a_severity a = Mild \<and>
      assessValue
        (thresholds(''hemoglobin'' \<mapsto>
           hemoglobin_conf\<lparr>severity := (severity hemoglobin_conf)\<lparr>mild := Some 0.5\<rparr>\<rparr>))
        ''hemoglobin'' (Fin 13.4) male = Inr a"
    by (auto simp: c)
  from assessValue_classes [of thresholds "''glucose_fasting''" glucose_fasting_conf no_meta "Some 70" "Some 99" "Fin 130" 70 99 None]
    glucose_any
  have 2: "\<exists>a. assessValue thresholds ''glucose_fasting'' (Fin 130) no_meta = Inr a \<and>
      a_status a = High \<and> a_severity a = Moderate"
    by (auto simp: c js_gt_def)
  from assessValue_classes [of "thresholds(''ldl'' \<mapsto> ldl_conf)" "''ldl''" ldl_conf no_meta None "Some 100" "Fin 130" 0 100 None]
    ldl_any
  have 3: "\<exists>a. assessValue (thresholds(''ldl'' \<mapsto> ldl_conf)) ''ldl'' (Fin 130) no_meta = Inr a \<and>
      a_status a = High \<and> a_severity a = Moderate"
    by (auto simp: c js_gt_def)
  from 1 2 3 show ?thesis by blast
qed

section \<open>Properties of the merge\<close>

text \<open>
  C3. The merge is not idempotent on the code: each guard looks for a marker (\<open>Watson Lab
  Highlights\<close>, \<open>Watson Lab\<close>, \<open>AI Lab Follow-ups\<close>) that the appended section does not
  contain, so a second merge of the same analysis appends every section again. On the
  analysis \<open>base0\<close> the summary, the findings and the recommendations after two merges all
  differ from those after one merge.
\<close>

theorem merge_twice_differs:
  "summary (mergeLabInsightsIntoSections (mergeLabInsightsIntoSections base0)) \<noteq>
     summary (mergeLabInsightsIntoSections base0) \<and>
   findings (mergeLabInsightsIntoSections (mergeLabInsightsIntoSections base0)) \<noteq>
     findings (mergeLabInsightsIntoSections base0) \<and>
   recommendations (mergeLabInsightsIntoSections (mergeLabInsightsIntoSections base0)) \<noteq>
     recommendations (mergeLabInsightsIntoSections base0)"
  by code_simp

theorem merge_twice_differs_witness:
  "mergeLabInsightsIntoSections (mergeLabInsightsIntoSections base0) \<noteq>
     mergeLabInsightsIntoSections base0"
  using merge_twice_differs by auto

section \<open>Properties of the extraction of lab values\<close>

lemma obj_set_keys:
  "map fst (obj_set kvs k v) =
     (if k \<in> set (map fst kvs) then map fst kvs else map fst kvs @ [k])"
  by (induction kvs) force+

lemma parse_step_keys:
  "map fst (parse_step ntext found p) =
     (if rx_exec True (regex p) ntext = None \<or> p_key p \<in> set (map fst found)
      then map fst found else map fst found @ [p_key p])"
  by (auto simp: parse_step_def obj_set_keys Let_def split: option.splits)

lemma parseLabValues_keys:
  "map fst (parseLabValues t) = concat (map (found_keys (normalizeText t)) patterns)"
  by (simp add: parseLabValues_def patterns_def parse_step_keys found_keys_def)

text \<open>The result has at most one entry per analyte.\<close>

lemma parseLabValues_distinct: "distinct (map fst (parseLabValues t))"
  by (simp add: parseLabValues_keys patterns_def found_keys_def)

lemma parseLabValues_known:
  "k \<in> set (map fst (parseLabValues t)) \<Longrightarrow>
   k \<in> {''hemoglobin'', ''platelet'', ''glucose_fasting''}"
  by (auto simp add: parseLabValues_keys patterns_def found_keys_def split: if_splits)

text \<open>An analyte has an entry exactly when its pattern matches the normalized text.\<close>

lemma parseLabValues_absent:
  "p \<in> set patterns \<Longrightarrow>
   (p_key p \<in> set (map fst (parseLabValues t))) =
   (rx_exec True (regex p) (normalizeText t) \<noteq> None)"
  by (auto simp add: parseLabValues_keys patterns_def found_keys_def split: if_splits)

text \<open>
  C9. The result has at most one entry per analyte and no entry for an analyte whose
  pattern does not match (the two lemmas above), but an entry can be NaN: the class
  \<open>[0-9,]+\<close> of the platelet pattern also matches commas alone, and once the commas are
  removed \<open>parseFloat\<close> reads the empty string. On the text \<open>plt ,\<close> the result is the
  single entry \<open>platelet\<close> with the value NaN.
\<close>

theorem parseLabValues_comma_only:
  "parseLabValues ''plt ,'' = [(''platelet'', NaN)]"
  by code_simp

theorem parseLabValues_comma_only_witness:
  "NaN \<in> snd ` set (parseLabValues ''plt ,'')"
  using parseLabValues_comma_only by simp

section \<open>Properties of the entry point\<close>

lemma thresholds_known:
  "k \<in> {''hemoglobin'', ''platelet'', ''glucose_fasting''} \<Longrightarrow> \<exists>c. thresholds k = Some c"
  by (auto simp: thresholds_def)

text \<open>An assessment with a range and a unit, as \<open>assessValue\<close> returns it for an entry.\<close>

lemma assessValue_known:
  assumes "thresholds k = Some c"
  shows "\<exists>a lo hi u. assessValue thresholds k v meta = Inr a \<and>
           normalRange a = Some (lo, hi) \<and> a_unit a = Some u"
proof -
  obtain lo hi where "resolveBounds c meta = (lo, hi)"
    by (cases "resolveBounds c meta")
  from assessValue_Entry [of thresholds k c meta lo hi v] assms this show ?thesis
    by blast
qed

lemma collect_all:
  "(\<And>x. x \<in> set xs \<Longrightarrow> \<exists>y. f x = Inr y) \<Longrightarrow>
   \<exists>ys. collect (map f xs) = Inr ys \<and> list_all2 (\<lambda>x y. f x = Inr y) xs ys"
proof (induction xs)
  case Nil
  then show ?case by simp
next
  case (Cons x xs)
  then obtain y where y: "f x = Inr y" by auto
  from Cons obtain ys where "collect (map f xs) = Inr ys" "list_all2 (\<lambda>x y. f x = Inr y) xs ys"
    by auto
  with y show ?case by simp
qed

text \<open>
  The loop over the parsed values does not raise: every key it meets is the key of a
  pattern, and the table has an entry for each.
\<close>

lemma assess_all_ok:
  "\<exists>as. assess_all t meta = Inr as \<and>
     (\<forall>a \<in> set as. \<exists>lo hi u. normalRange a = Some (lo, hi) \<and> a_unit a = Some u)"
proof -
  define f where "f = (\<lambda>(k, v). assessValue thresholds k v meta)"
  have 1: "\<exists>a lo hi u. f x = Inr a \<and> normalRange a = Some (lo, hi) \<and> a_unit a = Some u"
    if "x \<in> set (parseLabValues t)" for x
  proof -
    obtain k v where x: "x = (k, v)" by (cases x)
    with that have "k \<in> set (map fst (parseLabValues t))" by force
    then have "k \<in> {''hemoglobin'', ''platelet'', ''glucose_fasting''}"
      by (rule parseLabValues_known)
    then have "\<exists>c. thresholds k = Some c"
      by (rule thresholds_known)
    then obtain c where "thresholds k = Some c" ..
    from assessValue_known [OF this, of v meta] show ?thesis
      unfolding x f_def by simp
  qed
  then have "\<exists>a. f x = Inr a" if "x \<in> set (parseLabValues t)" for x
    using that by blast
  from collect_all [of "parseLabValues t" f, OF this]
  obtain as where as: "collect (map f (parseLabValues t)) = Inr as"
    and l: "list_all2 (\<lambda>x y. f x = Inr y) (parseLabValues t) as"
    by blast
  have "\<exists>lo hi u. normalRange a = Some (lo, hi) \<and> a_unit a = Some u" if "a \<in> set as" for a
  proof -
    from that obtain i where i: "i < length as" "as ! i = a"
      by (auto simp: in_set_conv_nth)
    from l i have "f (parseLabValues t ! i) = Inr a" "parseLabValues t ! i \<in> set (parseLabValues t)"
      by (simp_all add: list_all2_conv_all_nth)
    with 1 [of "parseLabValues t ! i"] show ?thesis by auto
  qed
  with as show ?thesis by (simp add: assess_all_def f_def)
qed

lemma prompt_line_ok: "normalRange a \<noteq> None \<Longrightarrow> \<exists>l. prompt_line rt a = Inr l"
  by (auto simp: prompt_line_def)

lemma prompt_ok:
  assumes "\<forall>a \<in> set as. \<exists>lo hi u. normalRange a = Some (lo, hi) \<and> a_unit a = Some u"
  shows "\<exists>p. createWatsonPrompt rt as meta = Inr p"
proof -
  have "\<exists>l. prompt_line rt a = Inr l" if "a \<in> set as" for a
    using that assms by (intro prompt_line_ok) auto
  from collect_all [of as "prompt_line rt", OF this]
  obtain ls where "collect (map (prompt_line rt) as) = Inr ls"
    by blast
  then show ?thesis by (simp add: createWatsonPrompt_def)
qed

text \<open>The explanation of the local fallback for one assessment, written out.\<close>

lemma local_explanation_eq:
  assumes "normalRange a = Some (lo, hi)" and "a_unit a = Some u"
  shows "local_explanation rt a =
     Inr (JObj [(''key'', JStr (key a)),
                (''explanation'', JStr
                   (if a_status a = Normal
                    then ''Your '' @ key a @ '' is within the normal range ('' @
                         (case lo of None \<Rightarrow> ''undefined'' | Some l \<Rightarrow> ToString rt (JNum (Fin l))) @
                         ''-'' @
                         (case hi of None \<Rightarrow> ''undefined'' | Some h \<Rightarrow> ToString rt (JNum (Fin h))) @
                         '' '' @ u @ '').''
                    else ''Your '' @ key a @ '' is '' @
                         (case a_status a of
                            Normal \<Rightarrow> ''normal'' | Low \<Rightarrow> ''low'' | High \<Rightarrow> ''high''
                          | Unknown \<Rightarrow> ''unknown'') @
                         '' (value '' @ ToString rt (JNum (val a)) @ '' '' @ u @
                         ''). Severity: '' @
                         (case a_severity a of
                            SNormal \<Rightarrow> ''normal'' | Mild \<Rightarrow> ''mild''
                          | Moderate \<Rightarrow> ''moderate'' | Severe \<Rightarrow> ''severe''
                          | SUnknown \<Rightarrow> ''unknown'') @
                         ''. We recommend medical follow-up.'')),
                (''severity'', JStr
                   (case a_severity a of
                      SNormal \<Rightarrow> ''normal'' | Mild \<Rightarrow> ''mild''
                    | Moderate \<Rightarrow> ''moderate'' | Severe \<Rightarrow> ''severe''
                    | SUnknown \<Rightarrow> ''unknown''))])"
proof -
  have 1: "status_str st =
      (case st of Normal \<Rightarrow> ''normal'' | Low \<Rightarrow> ''low'' | High \<Rightarrow> ''high''
       | Unknown \<Rightarrow> ''unknown'')" for st
    by (cases st) simp_all
  have 2: "severity_str sv =
      (case sv of SNormal \<Rightarrow> ''normal'' | Mild \<Rightarrow> ''mild'' | Moderate \<Rightarrow> ''moderate''
       | Severe \<Rightarrow> ''severe'' | SUnknown \<Rightarrow> ''unknown'')" for sv
    by (cases sv) simp_all
  from assms show ?thesis
    unfolding local_explanation_def explanation_text_def bound_str_def num_str_def 1 2
    by (simp add: nullish_def split: option.split)
qed

lemma local_result_ok:
  assumes "\<forall>a \<in> set as. \<exists>lo hi u. normalRange a = Some (lo, hi) \<and> a_unit a = Some u"
  shows "\<exists>xs. local_result rt as =
     Inr (JObj [(''explanations'', JArr xs),
       (''action_items'', JArr (map (\<lambda>a. JStr (''URGENT: see a doctor for '' @ key a))
                     (filter (\<lambda>a. a_severity a = Severe) as))),
       (''questions'', JArr [JStr ''Please consult a doctor for next steps.''])]) \<and>
     list_all2 (\<lambda>a x. local_explanation rt a = Inr x) as xs"
proof -
  have "\<exists>x. local_explanation rt a = Inr x" if "a \<in> set as" for a
  proof -
    from that assms obtain lo hi u where "normalRange a = Some (lo, hi)" "a_unit a = Some u"
      by blast
    from local_explanation_eq [OF this] show ?thesis by blast
  qed
  from collect_all [of as "local_explanation rt", OF this]
  obtain xs where "collect (map (local_explanation rt) as) = Inr xs"
    "list_all2 (\<lambda>a x. local_explanation rt a = Inr x) as xs"
    by blast
  then show ?thesis by (auto simp add: local_result_def)
qed

lemma unconfigured:
  "\<not> truthy_str (WATSON_PREDICTION_URL e) \<Longrightarrow>
   \<not> (truthy_str (WATSON_URL e) \<and> truthy_str (WATSON_DEPLOYMENT_ID e) \<and> truthy_str (WATSON_APIKEY e)) \<Longrightarrow>
   \<not> isWatsonConfigured e"
  by (auto simp: isWatsonConfigured_def)

text \<open>
  C7. When the service is unconfigured (no prediction URL, and not all three of base URL,
  deployment identifier and API key), \<open>analyzeLabReport\<close> leaves the world as it is: no
  request is sent and no reply consumed. It returns the assessments and, as the result,
  the local fallback built from them:

  \<^item> one explanation per assessment, in order, an object with the key of the
    assessment, its severity, and the text \<open>Your <key> is within the normal range
    (<low>-<high> <unit>).\<close> when the status is normal and \<open>Your <key> is <status> (value
    <value> <unit>). Severity: <severity>. We recommend medical follow-up.\<close> otherwise;

  \<^item> the action item \<open>URGENT: see a doctor for <key>\<close> for exactly the assessments of
    severity severe;

  \<^item> the one question \<open>Please consult a doctor for next steps.\<close>
\<close>

theorem unconfigured_local_fallback:
  assumes "\<not> truthy_str (WATSON_PREDICTION_URL e)"
    and "\<not> (truthy_str (WATSON_URL e) \<and> truthy_str (WATSON_DEPLOYMENT_ID e) \<and>
             truthy_str (WATSON_APIKEY e))"
  shows "\<exists>as xs. assess_all t meta = Inr as \<and>
     analyzeLabReport rt e w t meta =
       (Inr \<lparr>assessments = as,
             result = JObj
               [(''explanations'', JArr xs),
                (''action_items'',
                 JArr (map (\<lambda>a. JStr (''URGENT: see a doctor for '' @ key a))
                        (filter (\<lambda>a. a_severity a = Severe) as))),
                (''questions'', JArr [JStr ''Please consult a doctor for next steps.''])],
             rawWatson = JNull\<rparr>, w) \<and>
     list_all2
       (\<lambda>a x. \<exists>lo hi u. normalRange a = Some (lo, hi) \<and> a_unit a = Some u \<and>
          x = JObj [(''key'', JStr (key a)),
                    (''explanation'', JStr
                       (if a_status a = Normal
                        then ''Your '' @ key a @ '' is within the normal range ('' @
                             (case lo of None \<Rightarrow> ''undefined''
                              | Some l \<Rightarrow> ToString rt (JNum (Fin l))) @
                             ''-'' @
                             (case hi of None \<Rightarrow> ''undefined''
                              | Some h \<Rightarrow> ToString rt (JNum (Fin h))) @
                             '' '' @ u @ '').''
                        else ''Your '' @ key a @ '' is '' @
                             (case a_status a of
                                Normal \<Rightarrow> ''normal'' | Low \<Rightarrow> ''low'' | High \<Rightarrow> ''high''
                              | Unknown \<Rightarrow> ''unknown'') @
                             '' (value '' @ ToString rt (JNum (val a)) @ '' '' @ u @
                             ''). Severity: '' @
                             (case a_severity a of
                                SNormal \<Rightarrow> ''normal'' | Mild \<Rightarrow> ''mild''
                              | Moderate \<Rightarrow> ''moderate'' | Severe \<Rightarrow> ''severe''
                              | SUnknown \<Rightarrow> ''unknown'') @
                             ''. We recommend medical follow-up.'')),
                    (''severity'', JStr
                       (case a_severity a of
                          SNormal \<Rightarrow> ''normal'' | Mild \<Rightarrow> ''mild''
                        | Moderate \<Rightarrow> ''moderate'' | Severe \<Rightarrow> ''severe''
                        | SUnknown \<Rightarrow> ''unknown''))])
       as xs"
proof -
  from assess_all_ok [of t meta] obtain as where as: "assess_all t meta = Inr as"
    and r: "\<forall>a \<in> set as. \<exists>lo hi u. normalRange a = Some (lo, hi) \<and> a_unit a = Some u"
    by blast
  from prompt_ok [OF r] obtain p where p: "createWatsonPrompt rt as meta = Inr p"
    by blast
  from local_result_ok [OF r, of rt] obtain xs where
    xs: "local_result rt as =
     Inr (JObj [(''explanations'', JArr xs),
       (''action_items'', JArr (map (\<lambda>a. JStr (''URGENT: see a doctor for '' @ key a))
                     (filter (\<lambda>a. a_severity a = Severe) as))),
       (''questions'', JArr [JStr ''Please consult a doctor for next steps.''])])"
    and l: "list_all2 (\<lambda>a x. local_explanation rt a = Inr x) as xs"
    by blast
  from unconfigured [OF assms] as p xs
  have res: "analyzeLabReport rt e w t meta =
       (Inr \<lparr>assessments = as,
             result = JObj
               [(''explanations'', JArr xs),
                (''action_items'',
                 JArr (map (\<lambda>a. JStr (''URGENT: see a doctor for '' @ key a))
                        (filter (\<lambda>a. a_severity a = Severe) as))),
                (''questions'', JArr [JStr ''Please consult a doctor for next steps.''])],
             rawWatson = JNull\<rparr>, w)"
    by (simp add: analyzeLabReport_def)
  have "list_all2
       (\<lambda>a x. \<exists>lo hi u. normalRange a = Some (lo, hi) \<and> a_unit a = Some u \<and>
          x = JObj [(''key'', JStr (key a)),
                    (''explanation'', JStr
                       (if a_status a = Normal
                        then ''Your '' @ key a @ '' is within the normal range ('' @
                             (case lo of None \<Rightarrow> ''undefined''
                              | Some l \<Rightarrow> ToString rt (JNum (Fin l))) @
                             ''-'' @
                             (case hi of None \<Rightarrow> ''undefined''
                              | Some h \<Rightarrow> ToString rt (JNum (Fin h))) @
                             '' '' @ u @ '').''
                        else ''Your '' @ key a @ '' is '' @
                             (case a_status a of
                                Normal \<Rightarrow> ''normal'' | Low \<Rightarrow> ''low'' | High \<Rightarrow> ''high''
                              | Unknown \<Rightarrow> ''unknown'') @
                             '' (value '' @ ToString rt (JNum (val a)) @ '' '' @ u @
                             ''). Severity: '' @
                             (case a_severity a of
                                SNormal \<Rightarrow> ''normal'' | Mild \<Rightarrow> ''mild''
                              | Moderate \<Rightarrow> ''moderate'' | Severe \<Rightarrow> ''severe''
                              | SUnknown \<Rightarrow> ''unknown'') @
                             ''. We recommend medical follow-up.'')),
                    (''severity'', JStr
                       (case a_severity a of
                          SNormal \<Rightarrow> ''normal'' | Mild \<Rightarrow> ''mild''
                        | Moderate \<Rightarrow> ''moderate'' | Severe \<Rightarrow> ''severe''
                        | SUnknown \<Rightarrow> ''unknown''))])
       as xs"
  proof (rule list.rel_mono_strong [OF l])
    fix a x
    assume a: "a \<in> set as" and x: "local_explanation rt a = Inr x"
    from a r obtain lo hi u where b: "normalRange a = Some (lo, hi)" "a_unit a = Some u"
      by blast
    from local_explanation_eq [OF b, of rt] x b
    show "\<exists>lo hi u. normalRange a = Some (lo, hi) \<and> a_unit a = Some u \<and>
          x = JObj [(''key'', JStr (key a)),
                    (''explanation'', JStr
                       (if a_status a = Normal
                        then ''Your '' @ key a @ '' is within the normal range ('' @
                             (case lo of None \<Rightarrow> ''undefined''
                              | Some l \<Rightarrow> ToString rt (JNum (Fin l))) @
                             ''-'' @
                             (case hi of None \<Rightarrow> ''undefined''
                              | Some h \<Rightarrow> ToString rt (JNum (Fin h))) @
                             '' '' @ u @ '').''
                        else ''Your '' @ key a @ '' is '' @
                             (case a_status a of
                                Normal \<Rightarrow> ''normal'' | Low \<Rightarrow> ''low'' | High \<Rightarrow> ''high''
                              | Unknown \<Rightarrow> ''unknown'') @
                             '' (value '' @ ToString rt (JNum (val a)) @ '' '' @ u @
                             ''). Severity: '' @
                             (case a_severity a of
                                SNormal \<Rightarrow> ''normal'' | Mild \<Rightarrow> ''mild''
                              | Moderate \<Rightarrow> ''moderate'' | Severe \<Rightarrow> ''severe''
                              | SUnknown \<Rightarrow> ''unknown'') @
                             ''. We recommend medical follow-up.'')),
                    (''severity'', JStr
                       (case a_severity a of
                          SNormal \<Rightarrow> ''normal'' | Mild \<Rightarrow> ''mild''
                        | Moderate \<Rightarrow> ''moderate'' | Severe \<Rightarrow> ''severe''
                        | SUnknown \<Rightarrow> ''unknown''))]"
      by auto
  qed
  with as res show ?thesis by blast
qed
lemma assess_all_two:
  "assess_all ''Hb 8.9, platelets 220'' male =
     Inr [\<lparr>key = ''hemoglobin'', val = Fin 8.9, a_unit = Some ''g/dL'',
            normalRange = Some (Some 13.5, Some 17.5), a_status = Low, a_severity = Severe,
            a_note = None\<rparr>,
          \<lparr>key = ''platelet'', val = Fin 220, a_unit = Some ''10^9/L'',
            normalRange = Some (Some 150, Some 450), a_status = Normal, a_severity = SNormal,
            a_note = None\<rparr>]"
  by code_simp

theorem unconfigured_local_fallback_witness:
  "analyzeLabReport printing_runtime no_env (world0 [prediction_reply])
     ''Hb 8.9, platelets 220'' male =
     (Inr \<lparr>assessments =
             [\<lparr>key = ''hemoglobin'', val = Fin 8.9, a_unit = Some ''g/dL'',
               normalRange = Some (Some 13.5, Some 17.5), a_status = Low, a_severity = Severe,
               a_note = None\<rparr>,
              \<lparr>key = ''platelet'', val = Fin 220, a_unit = Some ''10^9/L'',
               normalRange = Some (Some 150, Some 450), a_status = Normal,
               a_severity = SNormal, a_note = None\<rparr>],
           result = JObj
             [(''explanations'',
               JArr [JObj [(''key'', JStr ''hemoglobin''),
                           (''explanation'', JStr ''Your hemoglobin is low (value 8.9 g/dL). Severity: severe. We recommend medical follow-up.''),
                           (''severity'', JStr ''severe'')],
                     JObj [(''key'', JStr ''platelet''),
                           (''explanation'', JStr ''Your platelet is within the normal range (150-450 10^9/L).''),
                           (''severity'', JStr ''normal'')]]),
              (''action_items'', JArr [JStr ''URGENT: see a doctor for hemoglobin'']),
              (''questions'', JArr [JStr ''Please consult a doctor for next steps.''])],
           rawWatson = JNull\<rparr>, world0 [prediction_reply])"
proof -
  have 1: "\<not> truthy_str (WATSON_PREDICTION_URL no_env)"
    and 2: "\<not> (truthy_str (WATSON_URL no_env) \<and> truthy_str (WATSON_DEPLOYMENT_ID no_env) \<and>
                truthy_str (WATSON_APIKEY no_env))"
    by (simp_all add: no_env_def truthy_str_def)
  have p: "ToString printing_runtime (JNum (Fin 8.9)) = ''8.9''"
    "ToString printing_runtime (JNum (Fin 150)) = ''150''"
    "ToString printing_runtime (JNum (Fin 450)) = ''450''"
    by (simp_all add: printing_runtime_def)
  from unconfigured_local_fallback
    [OF 1 2, of "''Hb 8.9, platelets 220''" male printing_runtime "world0 [prediction_reply]"]
  show ?thesis
    unfolding assess_all_two
    by (auto simp: list_all2_Cons1 p)
qed

lemma the_prompt_eq:
  "assess_all t meta = Inr as \<Longrightarrow> createWatsonPrompt rt as meta = Inr p \<Longrightarrow>
   the_prompt rt t meta = p"
  by (simp add: the_prompt_def)

lemma local_shape:
  assumes "\<forall>a \<in> set as. \<exists>lo hi u. normalRange a = Some (lo, hi) \<and> a_unit a = Some u"
  shows "\<exists>res. local_result rt as = Inr res \<and> normalized_shape res \<and>
     obj_keys res = [''explanations'', ''action_items'', ''questions'']"
  using local_result_ok [OF assms, of rt] by auto

text \<open>The three ways the function ends.\<close>

lemma analyze_cases:
  obtains (unconfigured) as res where "assess_all t meta = Inr as" "\<not> isWatsonConfigured e"
      "local_result rt as = Inr res" "normalized_shape res"
      "obj_keys res = [''explanations'', ''action_items'', ''questions'']"
      "analyzeLabReport rt e w t meta =
         (Inr \<lparr>assessments = as, result = res, rawWatson = JNull\<rparr>, w)"
  | (failed) as res err w1 where "assess_all t meta = Inr as" "isWatsonConfigured e"
      "callWatsonx rt e w (the_prompt rt t meta) = (Inl err, w1)"
      "local_result rt as = Inr res" "normalized_shape res"
      "obj_keys res = [''explanations'', ''action_items'', ''questions'']"
      "analyzeLabReport rt e w t meta =
         (Inr \<lparr>assessments = as, result = res, rawWatson = JNull\<rparr>, w1)"
  | (returned) as d w1 where "assess_all t meta = Inr as" "isWatsonConfigured e"
      "callWatsonx rt e w (the_prompt rt t meta) = (Inr d, w1)"
      "analyzeLabReport rt e w t meta =
         (Inr \<lparr>assessments = as, result = generated rt d, rawWatson = d\<rparr>, w1)"
proof -
  from assess_all_ok [of t meta] obtain as where as: "assess_all t meta = Inr as"
    and r: "\<forall>a \<in> set as. \<exists>lo hi u. normalRange a = Some (lo, hi) \<and> a_unit a = Some u"
    by blast
  from prompt_ok [OF r] obtain p where p: "createWatsonPrompt rt as meta = Inr p"
    by blast
  from as p have tp: "the_prompt rt t meta = p" by (rule the_prompt_eq)
  from local_shape [OF r] obtain res where res: "local_result rt as = Inr res"
    and sh: "normalized_shape res" "obj_keys res = [''explanations'', ''action_items'', ''questions'']"
    by blast
  show thesis
  proof (cases "isWatsonConfigured e")
    case False
    with as p res have "analyzeLabReport rt e w t meta =
         (Inr \<lparr>assessments = as, result = res, rawWatson = JNull\<rparr>, w)"
      by (simp add: analyzeLabReport_def)
    with as False res sh show thesis by (intro unconfigured [of as res])
  next
    case True
    obtain x w1 where c: "callWatsonx rt e w p = (x, w1)" by (cases "callWatsonx rt e w p")
    show thesis
    proof (cases x)
      case (Inl err)
      with True as p res c have "analyzeLabReport rt e w t meta =
         (Inr \<lparr>assessments = as, result = res, rawWatson = JNull\<rparr>, w1)"
        by (simp add: analyzeLabReport_def)
      with True c Inl tp as res sh show thesis by (intro failed [of as err w1 res]) simp_all
    next
      case (Inr d)
      with True as p c have "analyzeLabReport rt e w t meta =
         (Inr \<lparr>assessments = as, result = generated rt d, rawWatson = d\<rparr>, w1)"
        by (simp add: analyzeLabReport_def)
      with True c Inr tp as show thesis by (intro returned [of as d w1]) simp_all
    qed
  qed
qed

text \<open>A payload that is a string is the generated content as it is.\<close>

lemma generated_JStr: "generated rt (JStr s) = JStr s"
  by (simp add: generated_def generated_try_def chat_content_def predictions0_def
      output_generations_def)

text \<open>
  C1, amended. For every runtime, environment and world (so every upstream behaviour),
  every text and every patient metadata (an object whose sex, when it is there, is a
  string), \<open>analyzeLabReport\<close> does not raise: it returns a report with the list of the
  local assessments and a result.

  \<^item> When the service is unconfigured or the call fails, \<open>rawWatson\<close> is null and the result
    is an object with exactly the fields \<open>explanations\<close>, \<open>action_items\<close> and \<open>questions\<close>,
    each an array.

  \<^item> When the call returns a payload, \<open>rawWatson\<close> is the payload and the result is the
    content that lines 366 to 389 generate from it, which need not be an object: a
    payload that is a string (the body of a response that is not JSON) is the result as
    it is.
\<close>

theorem analyzeLabReport_never_raises:
  "\<exists>as r w'. assess_all t meta = Inr as \<and>
     analyzeLabReport rt e w t meta = (Inr r, w') \<and> assessments r = as \<and>
     (\<not> isWatsonConfigured e \<or> isl (fst (callWatsonx rt e w (the_prompt rt t meta))) \<longrightarrow>
        rawWatson r = JNull \<and> normalized_shape (result r)) \<and>
     (\<forall>d. isWatsonConfigured e \<and> fst (callWatsonx rt e w (the_prompt rt t meta)) = Inr d \<longrightarrow>
        rawWatson r = d \<and> result r = generated rt d \<and>
        (\<forall>s. d = JStr s \<longrightarrow> result r = JStr s))"
proof (cases rule: analyze_cases [of t meta e rt w])
  case (unconfigured as res)
  then show ?thesis by simp
next
  case (failed as res err w1)
  then show ?thesis by simp
next
  case (returned as d w1)
  then show ?thesis by (simp add: generated_JStr)
qed


lemma call_fails: "fst (callWatsonx rt url_env (world0 []) p) = Inl (AxiosError None)"
  by (simp add: url_env_def no_env_def truthy_str_def callWatsonx_def chooseAuth_def env_or_def
      toLowerCase_def lower_char_def post_def world0_def Let_def nullish_def)

lemma call_returns:
  "fst (callWatsonx rt url_env (world0 [text_reply]) p) = Inr (JStr ''upstream unavailable'')"
  by (simp add: url_env_def no_env_def truthy_str_def callWatsonx_def chooseAuth_def env_or_def
      toLowerCase_def lower_char_def post_def world0_def Let_def nullish_def text_reply_def)

lemma url_env_configured: "isWatsonConfigured url_env"
  by (simp add: isWatsonConfigured_def url_env_def no_env_def truthy_str_def)

theorem analyzeLabReport_never_raises_witness:
  "(\<exists>as r w'. assess_all ''Hb 8.9'' male = Inr as \<and>
      analyzeLabReport some_runtime no_env (world0 []) ''Hb 8.9'' male = (Inr r, w') \<and>
      assessments r = as \<and> rawWatson r = JNull \<and> normalized_shape (result r)) \<and>
   (\<exists>as r w'. assess_all ''Hb 8.9'' male = Inr as \<and>
      analyzeLabReport some_runtime url_env (world0 []) ''Hb 8.9'' male = (Inr r, w') \<and>
      assessments r = as \<and> rawWatson r = JNull \<and> normalized_shape (result r)) \<and>
   (\<exists>as r w'. assess_all ''Hb 8.9'' male = Inr as \<and>
      analyzeLabReport some_runtime url_env (world0 [text_reply]) ''Hb 8.9'' male = (Inr r, w') \<and>
      assessments r = as \<and> rawWatson r = JStr ''upstream unavailable'' \<and>
      result r = JStr ''upstream unavailable'')"
proof -
  from analyzeLabReport_never_raises [of "''Hb 8.9''" male some_runtime url_env "world0 []"]
    call_fails [of some_runtime "the_prompt some_runtime ''Hb 8.9'' male"]
  have 1: "\<exists>as r w'. assess_all ''Hb 8.9'' male = Inr as \<and>
      analyzeLabReport some_runtime url_env (world0 []) ''Hb 8.9'' male = (Inr r, w') \<and>
      assessments r = as \<and> rawWatson r = JNull \<and> normalized_shape (result r)"
    by auto
  from analyzeLabReport_never_raises
    [of "''Hb 8.9''" male some_runtime url_env "world0 [text_reply]"]
    call_returns [of some_runtime "the_prompt some_runtime ''Hb 8.9'' male"]
    url_env_configured
  have 2: "\<exists>as r w'. assess_all ''Hb 8.9'' male = Inr as \<and>
      analyzeLabReport some_runtime url_env (world0 [text_reply]) ''Hb 8.9'' male = (Inr r, w') \<and>
      assessments r = as \<and> rawWatson r = JStr ''upstream unavailable'' \<and>
      result r = JStr ''upstream unavailable''"
    by auto
  have "\<not> isWatsonConfigured no_env"
    by (simp add: isWatsonConfigured_def no_env_def truthy_str_def)
  with analyzeLabReport_never_raises [of "''Hb 8.9''" male some_runtime no_env "world0 []"]
  have 0: "\<exists>as r w'. assess_all ''Hb 8.9'' male = Inr as \<and>
      analyzeLabReport some_runtime no_env (world0 []) ''Hb 8.9'' male = (Inr r, w') \<and>
      assessments r = as \<and> rawWatson r = JNull \<and> normalized_shape (result r)"
    by auto
  from 0 1 2 show ?thesis by blast
qed


text \<open>The result of a payload in the prediction style, for every runtime.\<close>

lemma result_of_prediction:
  "fst (analyzeLabReport rt url_env (world0 [prediction_reply]) [] no_meta) =
     Inr \<lparr>assessments = [], result = JStr ''Your hemoglobin is low.'',
          rawWatson = JObj [(''predictions'',
                       JArr [JObj [(''result'', JStr ''Your hemoglobin is low.'')]])]\<rparr>"
  by code_simp


text \<open>
  C1, as stated, fails on its second half: the result need not be an object. With a
  prediction URL and a key set, and an upstream service that answers in the prediction
  style with a text as the result of its first prediction, the call succeeds and the
  result of \<open>analyzeLabReport\<close> is that text, a string.
\<close>

theorem result_not_object_counterexample:
  "fst (analyzeLabReport some_runtime url_env (world0 [prediction_reply]) [] no_meta) =
     Inr \<lparr>assessments = [], result = JStr ''Your hemoglobin is low.'',
          rawWatson = JObj [(''predictions'',
                       JArr [JObj [(''result'', JStr ''Your hemoglobin is low.'')]])]\<rparr> \<and>
   \<not> is_object (JStr ''Your hemoglobin is low.'')"
  using result_of_prediction [of some_runtime] by simp


section \<open>Properties of the extraction of JSON\<close>

lemma rmatch_Lit_Cons:
  "rmatch False (Lit (c # l)) s cap =
     (case s of [] \<Rightarrow> [] | x # xs \<Rightarrow> if x = c then rmatch False (Lit l) xs cap else [])"
  by (cases s) (auto simp: fold_case_def)

lemma rmatch_Lit_Nil: "rmatch False (Lit []) s cap = [(s, cap)]"
  by (simp add: fold_case_def)





lemma replaceAll_None: "rx_exec ci r s = None \<Longrightarrow> replaceAll ci r f s = s"
  by (simp add: replaceAll.simps)












text \<open>The greedy \<open>[\s\S]*\<close> followed by a closing brace stops at the last brace.\<close>

lemma greedy_any_Cons:
  "greedy (\<lambda>c. True) 0 None (c # cs) = greedy (\<lambda>c. True) 0 None cs @ [c # cs]"
  by simp





text \<open>The clean-up of trailing commas.\<close>

lemma rmatch_space_then:
  "rmatch False (space_then c) s cap =
     concat (map (\<lambda>r. rmatch False (Lit [c]) r cap) (greedy is_space 0 None s))"
  by (simp add: space_then_def comp_def del: rmatch.simps(1))

lemma space_then_match:
  assumes "\<not> is_space c"
  shows "rmatch False (space_then c) s cap =
     (case dropWhile is_space s of [] \<Rightarrow> [] | y # ys \<Rightarrow> if y = c then [(ys, cap)] else [])"
proof (induction s)
  case Nil
  show ?case by (simp add: rmatch_space_then fold_case_def)
next
  case (Cons a s)
  show ?case
  proof (cases "is_space a")
    case True
    with assms have "a \<noteq> c" by auto
    then have "rmatch False (Lit [c]) (a # s) cap = []"
      by (simp add: fold_case_def)
    with True Cons show ?thesis
      by (simp add: rmatch_space_then del: rmatch.simps(1))
  next
    case False
    then show ?thesis
      by (simp add: rmatch_space_then fold_case_def)
  qed
qed

lemma comma_rx_match:
  assumes "\<not> is_space c"
  shows "rmatch False (comma_rx c) s None =
     (if comma_before c s then [(tl (dropWhile is_space (tl s)), None)] else [])"
proof (cases s)
  case Nil
  then show ?thesis by (simp add: comma_rx_def comma_before_def fold_case_def)
next
  case (Cons x xs)
  define d where "d = dropWhile is_space xs"
  have "rmatch False (comma_rx c) (x # xs) None =
      (if x = CHR '','' then (case d of [] \<Rightarrow> [] | y # ys \<Rightarrow> if y = c then [(ys, None)] else [])
       else [])"
    by (simp add: comma_rx_def fold_case_def space_then_match [OF assms] d_def)
  moreover have "comma_before c (x # xs) =
      (x = CHR '','' \<and> (case d of [] \<Rightarrow> False | y # ys \<Rightarrow> y = c))"
    by (simp add: comma_before_def d_def)
  moreover have "tl (dropWhile is_space (tl (x # xs))) = tl d"
    by (simp add: d_def)
  ultimately show ?thesis
    unfolding Cons by (cases d) auto
qed

lemma rx_exec_comma_None:
  "\<not> is_space c \<Longrightarrow> \<not> has_comma_before c s \<Longrightarrow> rx_exec False (comma_rx c) s = None"
  by (induction s) (simp_all add: comma_rx_match comma_before_def)




lemma strip_trailing_commas_clean:
  assumes "no_trailing_comma s"
  shows "strip_trailing_commas s = s"
proof -
  have s: "\<not> is_space CHR ''}''" "\<not> is_space CHR '']''"
    by (simp_all add: is_space_def)
  from assms rx_exec_comma_None [OF s(1)] rx_exec_comma_None [OF s(2)] show ?thesis
    by (simp add: strip_trailing_commas_def replaceAll_None no_trailing_comma_def)
qed

















end
